theory Spec2Isabelle
  imports Complex_Main
begin

section \<open>Aeon2DEngine: audio players, resource holder and math utilities\<close>

text \<open>
  A shallow embedding of the engine's bookkeeping code. Conventions:
  \<^item> a C++ \<open>float\<close> is a finite number, an infinity or NaN; a finite result of
    an operation is exact, and one beyond the greatest finite float overflows to the
    infinity of its sign (rounding and the sign of zero are outside the model);
  \<^item> a \<open>std::map\<close> is an association list kept in key order, a
    \<open>std::list\<close> a list;
  \<^item> the process-wide state (the engine's listener position and the debug
    logger's message buffer) is the record \<open>globals\<close>, passed in and out;
  \<^item> the conditional compilation on \<open>_DEBUG\<close> is the parameter \<open>build\<close>;
  \<^item> dereferencing a past-the-end iterator or a null pointer, which the C++
    standard leaves undefined, is the error value \<open>UndefinedBehaviour\<close>.
\<close>

subsection \<open>Floats, builds, errors\<close>

datatype float = Finite real | PlusInf | MinusInf | NaN

text \<open>The greatest finite value of the 32-bit float: \<open>(2 - 2^-23) * 2^127\<close>.\<close>

definition FLT_MAX :: real where
  "FLT_MAX = 340282346638528859811704183484516925440"

definition overflowf :: "real \<Rightarrow> float" where
  "overflowf r =
     (if FLT_MAX < r then PlusInf else if r < - FLT_MAX then MinusInf else Finite r)"

text \<open>The comparison \<open><\<close> on floats: false as soon as an operand is NaN.\<close>

fun lessf :: "float \<Rightarrow> float \<Rightarrow> bool" where
  "lessf NaN b = False"
| "lessf a NaN = False"
| "lessf (Finite x) (Finite y) = (x < y)"
| "lessf (Finite x) PlusInf = True"
| "lessf (Finite x) MinusInf = False"
| "lessf PlusInf b = False"
| "lessf MinusInf MinusInf = False"
| "lessf MinusInf b = True"

text \<open>
  \<open>fminf\<close> and \<open>fmaxf\<close> of the C library: when one argument is NaN they return the
  other one.
\<close>

definition fminf :: "float \<Rightarrow> float \<Rightarrow> float" where
  "fminf a b = (if a = NaN then b else if b = NaN then a else if lessf b a then b else a)"

definition fmaxf :: "float \<Rightarrow> float \<Rightarrow> float" where
  "fmaxf a b = (if a = NaN then b else if b = NaN then a else if lessf a b then b else a)"

fun negf :: "float \<Rightarrow> float" where
  "negf NaN = NaN"
| "negf (Finite x) = Finite (- x)"
| "negf PlusInf = MinusInf"
| "negf MinusInf = PlusInf"

fun addf :: "float \<Rightarrow> float \<Rightarrow> float" where
  "addf NaN b = NaN"
| "addf a NaN = NaN"
| "addf (Finite x) (Finite y) = overflowf (x + y)"
| "addf (Finite x) b = b"
| "addf a (Finite y) = a"
| "addf PlusInf PlusInf = PlusInf"
| "addf MinusInf MinusInf = MinusInf"
| "addf PlusInf MinusInf = NaN"
| "addf MinusInf PlusInf = NaN"

fun mulf :: "float \<Rightarrow> float \<Rightarrow> float" where
  "mulf NaN b = NaN"
| "mulf a NaN = NaN"
| "mulf (Finite x) (Finite y) = overflowf (x * y)"
| "mulf (Finite x) PlusInf = (if x = 0 then NaN else if 0 < x then PlusInf else MinusInf)"
| "mulf (Finite x) MinusInf = (if x = 0 then NaN else if 0 < x then MinusInf else PlusInf)"
| "mulf PlusInf (Finite y) = (if y = 0 then NaN else if 0 < y then PlusInf else MinusInf)"
| "mulf MinusInf (Finite y) = (if y = 0 then NaN else if 0 < y then MinusInf else PlusInf)"
| "mulf PlusInf PlusInf = PlusInf"
| "mulf PlusInf MinusInf = MinusInf"
| "mulf MinusInf PlusInf = MinusInf"
| "mulf MinusInf MinusInf = PlusInf"

fun divf :: "float \<Rightarrow> float \<Rightarrow> float" where
  "divf NaN b = NaN"
| "divf a NaN = NaN"
| "divf (Finite x) (Finite y) =
     (if y = 0 then (if x = 0 then NaN else if 0 < x then PlusInf else MinusInf)
      else overflowf (x / y))"
| "divf (Finite x) b = Finite 0"
| "divf PlusInf (Finite y) = (if y < 0 then MinusInf else PlusInf)"
| "divf MinusInf (Finite y) = (if y < 0 then PlusInf else MinusInf)"
| "divf a b = NaN"

fun sqrtf :: "float \<Rightarrow> float" where
  "sqrtf NaN = NaN"
| "sqrtf (Finite x) = (if x < 0 then NaN else Finite (sqrt x))"
| "sqrtf PlusInf = PlusInf"
| "sqrtf MinusInf = NaN"

datatype build = Debug | Release

datatype error = UndefinedBehaviour | SignedOverflow | OutOfBounds | LengthError

subsection \<open>std::map as a key-ordered association list\<close>

definition map_find :: "'k \<Rightarrow> ('k \<times> 'v) list \<Rightarrow> 'v option" where
  "map_find k m = map_of m k"

text \<open>\<open>std::map::insert\<close>: an element whose key is already present is not inserted.\<close>

definition map_insert :: "'k::linorder \<Rightarrow> 'v \<Rightarrow> ('k \<times> 'v) list \<Rightarrow> ('k \<times> 'v) list" where
  "map_insert k v m = (if map_find k m = None then insort_key fst (k, v) m else m)"

definition map_erase :: "'k \<Rightarrow> ('k \<times> 'v) list \<Rightarrow> ('k \<times> 'v) list" where
  "map_erase k m = filter (\<lambda>kv. fst kv \<noteq> k) m"

text \<open>Writing through a reference \<open>found->second\<close> obtained from an iterator.\<close>

definition map_modify :: "'k \<Rightarrow> ('v \<Rightarrow> 'v) \<Rightarrow> ('k \<times> 'v) list \<Rightarrow> ('k \<times> 'v) list" where
  "map_modify k f m = map (\<lambda>kv. if fst kv = k then (fst kv, f (snd kv)) else kv) m"

text \<open>The loop \<open>for (auto& e : m)\<close> writing through every \<open>e.second\<close>.\<close>

definition map_for_each :: "('v \<Rightarrow> 'v) \<Rightarrow> ('k \<times> 'v) list \<Rightarrow> ('k \<times> 'v) list" where
  "map_for_each f m = map (\<lambda>kv. (fst kv, f (snd kv))) m"

definition map_ordered :: "('k::linorder \<times> 'v) list \<Rightarrow> bool" where
  "map_ordered m = sorted_wrt (<) (map fst m)"

subsection \<open>Process-wide state: the listener and the DebugLogger\<close>

record globals =
  listener :: "float \<times> float \<times> float"
  messages :: "string list"

definition cacheMessage :: "string \<Rightarrow> globals \<Rightarrow> globals" where
  "cacheMessage message g = g\<lparr>messages := messages g @ [message]\<rparr>"

definition getCachedMessages :: "globals \<Rightarrow> string list \<times> globals" where
  "getCachedMessages g = (messages g, g\<lparr>messages := []\<rparr>)"

text \<open>A message cached only when \<open>_DEBUG\<close> is defined.\<close>

definition debugMessage :: "build \<Rightarrow> string \<Rightarrow> globals \<Rightarrow> globals" where
  "debugMessage b message g = (case b of Debug \<Rightarrow> cacheMessage message g | Release \<Rightarrow> g)"

definition listener_z :: "globals \<Rightarrow> float" where
  "listener_z g = snd (snd (listener g))"

subsection \<open>AudioProperties\<close>

record AudioProperties =
  p_volume :: float
  p_attenuation :: float
  p_pitch :: float
  p_minDistance2d :: float
  p_minDistance3d :: float
  p_relativeToListener :: bool

definition setVolume :: "float \<Rightarrow> AudioProperties \<Rightarrow> AudioProperties" where
  "setVolume volume p = p\<lparr>p_volume := fmaxf (fminf volume (Finite 100)) (Finite 0)\<rparr>"

definition setMinDistance2D :: "globals \<Rightarrow> float \<Rightarrow> AudioProperties \<Rightarrow> AudioProperties" where
  "setMinDistance2D g minDistance2d p =
     (let d = fmaxf minDistance2d (Finite 1);
          LISTENER_POS_Z = listener_z g
      in p\<lparr>p_minDistance2d := d,
            p_minDistance3d := sqrtf (addf (mulf d d) (mulf LISTENER_POS_Z LISTENER_POS_Z))\<rparr>)"

definition setAttenuation :: "float \<Rightarrow> AudioProperties \<Rightarrow> AudioProperties" where
  "setAttenuation attenuation p = p\<lparr>p_attenuation := fmaxf attenuation (Finite 0)\<rparr>"

definition setPitch :: "float \<Rightarrow> AudioProperties \<Rightarrow> AudioProperties" where
  "setPitch pitch p = p\<lparr>p_pitch := pitch\<rparr>"

definition setRelativeToListener :: "bool \<Rightarrow> AudioProperties \<Rightarrow> AudioProperties" where
  "setRelativeToListener flag p = p\<lparr>p_relativeToListener := flag\<rparr>"

definition getVolume :: "AudioProperties \<Rightarrow> float" where
  "getVolume p = p_volume p"

definition getAttenuation :: "AudioProperties \<Rightarrow> float" where
  "getAttenuation p = p_attenuation p"

definition getPitch :: "AudioProperties \<Rightarrow> float" where
  "getPitch p = p_pitch p"


definition getMinDistance3D :: "AudioProperties \<Rightarrow> float" where
  "getMinDistance3D p = p_minDistance3d p"

definition isRelativeToListener :: "AudioProperties \<Rightarrow> bool" where
  "isRelativeToListener p = p_relativeToListener p"

text \<open>
  The constructor initialises pitch and the relative flag and then runs the three
  setters, which overwrite the four remaining members (written as 0 before that).
\<close>

definition AudioProperties_new ::
  "globals \<Rightarrow> float \<Rightarrow> float \<Rightarrow> float \<Rightarrow> float \<Rightarrow> bool \<Rightarrow> AudioProperties" where
  "AudioProperties_new g volume attenuation pitch minDistance2d relativeToListener =
     setMinDistance2D g minDistance2d
       (setAttenuation attenuation
         (setVolume volume
           \<lparr>p_volume = Finite 0, p_attenuation = Finite 0, p_pitch = pitch,
            p_minDistance2d = Finite 0, p_minDistance3d = Finite 0,
            p_relativeToListener = relativeToListener\<rparr>))"

text \<open>The default arguments of the constructor: \<open>AudioProperties()\<close>.\<close>

definition AudioProperties_default :: "globals \<Rightarrow> AudioProperties" where
  "AudioProperties_default g = AudioProperties_new g (Finite 100) (Finite 1) (Finite 1) (Finite 1) False"

text \<open>The copy constructor and copy assignment copy all six members.\<close>

definition AudioProperties_copy :: "AudioProperties \<Rightarrow> AudioProperties" where
  "AudioProperties_copy c =
     \<lparr>p_volume = p_volume c, p_attenuation = p_attenuation c, p_pitch = p_pitch c,
      p_minDistance2d = p_minDistance2d c, p_minDistance3d = p_minDistance3d c,
      p_relativeToListener = p_relativeToListener c\<rparr>"

subsection \<open>AudioPlayer (base class)\<close>

record AudioPlayer =
  globalVolume :: float

definition getGlobalVolume :: "'a AudioPlayer_scheme \<Rightarrow> float" where
  "getGlobalVolume a = globalVolume a"

definition AudioPlayer_setGlobalVolume :: "float \<Rightarrow> 'a AudioPlayer_scheme \<Rightarrow> 'a AudioPlayer_scheme" where
  "AudioPlayer_setGlobalVolume gv a = a\<lparr>globalVolume := fmaxf (fminf gv (Finite 100)) (Finite 0)\<rparr>"

definition setListenerPosition :: "float \<times> float \<Rightarrow> globals \<Rightarrow> globals" where
  "setListenerPosition pos g = g\<lparr>listener := (fst pos, negf (snd pos), listener_z g)\<rparr>"

definition getListenerPosition :: "globals \<Rightarrow> float \<times> float" where
  "getListenerPosition g = (fst (listener g), negf (fst (snd (listener g))))"

text \<open>The effect of the base constructor on the shared listener.\<close>

definition AudioPlayer_init :: "globals \<Rightarrow> globals" where
  "AudioPlayer_init g = g\<lparr>listener := (Finite 0, Finite 0, Finite 300)\<rparr>"

subsection \<open>ResourceHolder\<close>

text \<open>
  \<open>Res::loadFromFile\<close> belongs to the multimedia library; it is the parameter
  \<open>loadFromFile\<close>, giving the loaded resource or \<open>None\<close> when the file cannot be
  loaded.
\<close>

record ('k, 'r) ResourceHolder =
  resourceMap :: "('k \<times> 'r) list"

definition ResourceHolder_load ::
  "build \<Rightarrow> (string \<Rightarrow> 'r option) \<Rightarrow> string \<Rightarrow> 'k::linorder \<Rightarrow> globals \<Rightarrow> ('k, 'r) ResourceHolder
     \<Rightarrow> globals \<times> ('k, 'r) ResourceHolder" where
  "ResourceHolder_load b loadFromFile filepath ident g h =
     (case loadFromFile filepath of
        Some res \<Rightarrow> (g, h\<lparr>resourceMap := map_insert ident res (resourceMap h)\<rparr>)
      | None \<Rightarrow>
          (debugMessage b (''ae::ResourceHolder::load - Failed to load \"'' @ filepath @ ''\"'') g, h))"

definition ResourceHolder_load1 ::
  "build \<Rightarrow> (string \<Rightarrow> 't \<Rightarrow> 'r option) \<Rightarrow> string \<Rightarrow> 't \<Rightarrow> 'k::linorder \<Rightarrow> globals
     \<Rightarrow> ('k, 'r) ResourceHolder \<Rightarrow> globals \<times> ('k, 'r) ResourceHolder" where
  "ResourceHolder_load1 b loadFromFile filepath t ident g h =
     (case loadFromFile filepath t of
        Some res \<Rightarrow> (g, h\<lparr>resourceMap := map_insert ident res (resourceMap h)\<rparr>)
      | None \<Rightarrow>
          (debugMessage b (''ae::ResourceHolder::load<T> - Failed to load \"'' @ filepath @ ''\"'') g, h))"

definition ResourceHolder_load2 ::
  "build \<Rightarrow> (string \<Rightarrow> 't \<Rightarrow> 'u \<Rightarrow> 'r option) \<Rightarrow> string \<Rightarrow> 't \<Rightarrow> 'u \<Rightarrow> 'k::linorder \<Rightarrow> globals
     \<Rightarrow> ('k, 'r) ResourceHolder \<Rightarrow> globals \<times> ('k, 'r) ResourceHolder" where
  "ResourceHolder_load2 b loadFromFile filepath t k ident g h =
     (case loadFromFile filepath t k of
        Some res \<Rightarrow> (g, h\<lparr>resourceMap := map_insert ident res (resourceMap h)\<rparr>)
      | None \<Rightarrow>
          (debugMessage b (''ae::ResourceHolder::load<T,K> - Failed to load \"'' @ filepath @ ''\"'') g, h))"

definition ResourceHolder_unload ::
  "build \<Rightarrow> 'k \<Rightarrow> globals \<Rightarrow> ('k, 'r) ResourceHolder \<Rightarrow> error + globals \<times> ('k, 'r) ResourceHolder" where
  "ResourceHolder_unload b ident g h =
     (case map_find ident (resourceMap h) of
        None \<Rightarrow>
          (case b of
             Debug \<Rightarrow> Inr (cacheMessage ''ae::ResourceHolder::unload - Unable to find resource'' g, h)
           | Release \<Rightarrow> Inl UndefinedBehaviour)
      | Some res \<Rightarrow> Inr (g, h\<lparr>resourceMap := map_erase ident (resourceMap h)\<rparr>))"

text \<open>\<open>get\<close> returns a pointer: \<open>None\<close> is \<open>nullptr\<close>.\<close>

definition ResourceHolder_get ::
  "build \<Rightarrow> 'k \<Rightarrow> globals \<Rightarrow> ('k, 'r) ResourceHolder \<Rightarrow> error + globals \<times> 'r option" where
  "ResourceHolder_get b ident g h =
     (case map_find ident (resourceMap h) of
        None \<Rightarrow>
          (case b of
             Debug \<Rightarrow> Inr (cacheMessage ''ae::ResourceHolder::get - Unable to find resource'' g, None)
           | Release \<Rightarrow> Inl UndefinedBehaviour)
      | Some res \<Rightarrow> Inr (g, Some res))"

text \<open>
  An operation on an identifier that is not in the map: with \<open>_DEBUG\<close> the code
  looks the key up, caches a message and returns; without it the code dereferences
  (or erases) \<open>find(id)\<close> unchecked.
\<close>

definition lookup_miss :: "build \<Rightarrow> string \<Rightarrow> globals \<Rightarrow> 'a \<Rightarrow> error + globals \<times> 'a" where
  "lookup_miss b message g x =
     (case b of Debug \<Rightarrow> Inr (cacheMessage message g, x) | Release \<Rightarrow> Inl UndefinedBehaviour)"

subsection \<open>The multimedia library's playable handles\<close>

text \<open>
  \<open>sf::Music\<close> and \<open>sf::Sound\<close> belong to the multimedia library. A handle is the
  record of the attributes the engine's code sets or reads, each library call is
  the update of its attribute, and a fresh handle carries the library's defaults.
  \<open>pause\<close> acts on a playing source only.
\<close>

datatype Status = Stopped | Paused | Playing

record Music =
  m_file :: "string option"
  m_status :: Status
  m_position :: "float \<times> float \<times> float"
  m_loop :: bool
  m_volume :: float
  m_attenuation :: float
  m_pitch :: float
  m_minDistance :: float
  m_relativeToListener :: bool

definition Music_new :: Music where
  "Music_new = \<lparr>m_file = None, m_status = Stopped, m_position = (Finite 0, Finite 0, Finite 0),
     m_loop = False, m_volume = Finite 100, m_attenuation = Finite 1, m_pitch = Finite 1,
     m_minDistance = Finite 1,
     m_relativeToListener = False\<rparr>"

definition Music_play :: "Music \<Rightarrow> Music" where
  "Music_play m = m\<lparr>m_status := Playing\<rparr>"

definition Music_pause :: "Music \<Rightarrow> Music" where
  "Music_pause m = (if m_status m = Playing then m\<lparr>m_status := Paused\<rparr> else m)"

definition Music_stop :: "Music \<Rightarrow> Music" where
  "Music_stop m = m\<lparr>m_status := Stopped\<rparr>"

definition Music_getStatus :: "Music \<Rightarrow> Status" where
  "Music_getStatus m = m_status m"

text \<open>\<open>openFromFile\<close> when the file opens: the stream is stopped and bound to the file.\<close>

definition Music_opened :: "string \<Rightarrow> Music \<Rightarrow> Music" where
  "Music_opened filepath m = m\<lparr>m_file := Some filepath, m_status := Stopped\<rparr>"

record 'r Sound =
  s_buffer :: 'r
  s_status :: Status
  s_position :: "float \<times> float \<times> float"
  s_volume :: float
  s_attenuation :: float
  s_pitch :: float
  s_minDistance :: float
  s_relativeToListener :: bool

definition Sound_new :: "'r \<Rightarrow> 'r Sound" where
  "Sound_new buffer = \<lparr>s_buffer = buffer, s_status = Stopped, s_position = (Finite 0, Finite 0, Finite 0), s_volume = Finite 100, s_attenuation = Finite 1,
     s_pitch = Finite 1, s_minDistance = Finite 1,
     s_relativeToListener = False\<rparr>"

definition Sound_play :: "'r Sound \<Rightarrow> 'r Sound" where
  "Sound_play s = s\<lparr>s_status := Playing\<rparr>"

definition Sound_pause :: "'r Sound \<Rightarrow> 'r Sound" where
  "Sound_pause s = (if s_status s = Playing then s\<lparr>s_status := Paused\<rparr> else s)"

definition Sound_stop :: "'r Sound \<Rightarrow> 'r Sound" where
  "Sound_stop s = s\<lparr>s_status := Stopped\<rparr>"

definition Sound_getStatus :: "'r Sound \<Rightarrow> Status" where
  "Sound_getStatus s = s_status s"

subsection \<open>MusicPlayer\<close>

record MusicTrack =
  music :: Music
  VOLUME :: float

definition MusicTrack_new :: "float \<Rightarrow> MusicTrack" where
  "MusicTrack_new volume = \<lparr>music = Music_new, VOLUME = volume\<rparr>"

record 'k MusicPlayer = AudioPlayer +
  tracks :: "('k \<times> MusicTrack) list"

text \<open>The defaulted constructor: the base constructor and an empty map.\<close>

definition MusicPlayer_new :: "globals \<Rightarrow> globals \<times> 'k MusicPlayer" where
  "MusicPlayer_new g = (AudioPlayer_init g, \<lparr>globalVolume = Finite 100, tracks = []\<rparr>)"

definition MusicPlayer_play_at ::
  "build \<Rightarrow> float \<times> float \<Rightarrow> 'k \<Rightarrow> bool \<Rightarrow> globals \<Rightarrow> 'k MusicPlayer
     \<Rightarrow> error + globals \<times> 'k MusicPlayer" where
  "MusicPlayer_play_at b position ident loop g mp =
     (case map_find ident (tracks mp) of
        None \<Rightarrow> lookup_miss b ''ae::MusicPlayer<T>::play - Unable to find music track'' g mp
      | Some found \<Rightarrow>
          Inr (g, mp\<lparr>tracks := map_modify ident
            (\<lambda>track. track\<lparr>music :=
               Music_play
                 ((music track)\<lparr>m_position := (fst position, negf (snd position), Finite 0),
                                m_loop := loop,
                                m_volume := divf (mulf (getGlobalVolume mp) (VOLUME track)) (Finite 100)\<rparr>)\<rparr>)
            (tracks mp)\<rparr>))"

definition MusicPlayer_play ::
  "build \<Rightarrow> 'k \<Rightarrow> bool \<Rightarrow> globals \<Rightarrow> 'k MusicPlayer \<Rightarrow> error + globals \<times> 'k MusicPlayer" where
  "MusicPlayer_play b ident loop g mp = MusicPlayer_play_at b (getListenerPosition g) ident loop g mp"

definition MusicPlayer_pause :: "bool \<Rightarrow> 'k MusicPlayer \<Rightarrow> 'k MusicPlayer" where
  "MusicPlayer_pause flag mp =
     (if flag then
        mp\<lparr>tracks := map_for_each
          (\<lambda>track. if Music_getStatus (music track) = Playing
                    then track\<lparr>music := Music_pause (music track)\<rparr> else track)
          (tracks mp)\<rparr>
      else
        mp\<lparr>tracks := map_for_each
          (\<lambda>track. if Music_getStatus (music track) = Paused
                    then track\<lparr>music := Music_play (music track)\<rparr> else track)
          (tracks mp)\<rparr>)"

definition MusicPlayer_pause_id ::
  "build \<Rightarrow> 'k \<Rightarrow> bool \<Rightarrow> globals \<Rightarrow> 'k MusicPlayer \<Rightarrow> error + globals \<times> 'k MusicPlayer" where
  "MusicPlayer_pause_id b ident flag g mp =
     (case map_find ident (tracks mp) of
        None \<Rightarrow> lookup_miss b ''ae::MusicPlayer<T>::pause - Unable to find music track'' g mp
      | Some found \<Rightarrow>
          Inr (g, mp\<lparr>tracks := map_modify ident
            (\<lambda>track.
               if flag \<and> Music_getStatus (music track) = Playing
               then track\<lparr>music := Music_pause (music track)\<rparr>
               else if \<not> flag \<and> Music_getStatus (music track) = Paused
               then track\<lparr>music := Music_play (music track)\<rparr>
               else track)
            (tracks mp)\<rparr>))"

definition MusicPlayer_stop :: "'k MusicPlayer \<Rightarrow> 'k MusicPlayer" where
  "MusicPlayer_stop mp =
     mp\<lparr>tracks := map_for_each (\<lambda>track. track\<lparr>music := Music_stop (music track)\<rparr>) (tracks mp)\<rparr>"

definition MusicPlayer_stop_id ::
  "build \<Rightarrow> 'k \<Rightarrow> globals \<Rightarrow> 'k MusicPlayer \<Rightarrow> error + globals \<times> 'k MusicPlayer" where
  "MusicPlayer_stop_id b ident g mp =
     (case map_find ident (tracks mp) of
        None \<Rightarrow> lookup_miss b ''ae::MusicPlayer<T>::stop - Unable to find music track'' g mp
      | Some found \<Rightarrow>
          Inr (g, mp\<lparr>tracks := map_modify ident
            (\<lambda>track. track\<lparr>music := Music_stop (music track)\<rparr>) (tracks mp)\<rparr>))"

definition MusicPlayer_setMusicSourcePosition ::
  "build \<Rightarrow> float \<times> float \<Rightarrow> 'k \<Rightarrow> globals \<Rightarrow> 'k MusicPlayer \<Rightarrow> error + globals \<times> 'k MusicPlayer" where
  "MusicPlayer_setMusicSourcePosition b position ident g mp =
     (case map_find ident (tracks mp) of
        None \<Rightarrow> lookup_miss b
          ''ae::MusicPlayer<T>::setMusicSourcePosition - Unable to find music track'' g mp
      | Some found \<Rightarrow>
          Inr (g, mp\<lparr>tracks := map_modify ident
            (\<lambda>track. track\<lparr>music := (music track)\<lparr>m_position := (fst position, negf (snd position), Finite 0)\<rparr>\<rparr>)
            (tracks mp)\<rparr>))"

definition MusicPlayer_getMusicStatus ::
  "build \<Rightarrow> 'k \<Rightarrow> globals \<Rightarrow> 'k MusicPlayer \<Rightarrow> error + globals \<times> Status" where
  "MusicPlayer_getMusicStatus b ident g mp =
     (case map_find ident (tracks mp) of
        None \<Rightarrow> lookup_miss b
          ''ae::MusicPlayer<T>::getMusicStatus - Unable to find music track'' g Stopped
      | Some found \<Rightarrow> Inr (g, Music_getStatus (music found)))"

definition MusicPlayer_setGlobalVolume :: "float \<Rightarrow> 'k MusicPlayer \<Rightarrow> 'k MusicPlayer" where
  "MusicPlayer_setGlobalVolume gv mp =
     (let mp1 = AudioPlayer_setGlobalVolume gv mp;
          GLOBAL_VOLUME = getGlobalVolume mp1
      in mp1\<lparr>tracks := map_for_each
           (\<lambda>track. track\<lparr>music := (music track)\<lparr>m_volume := divf (mulf GLOBAL_VOLUME (VOLUME track)) (Finite 100)\<rparr>\<rparr>)
           (tracks mp1)\<rparr>)"

text \<open>
  \<open>setupTrack\<close> takes the track to configure from \<open>tracks_.rbegin()\<close>, the entry
  with the greatest key. \<open>openFromFile\<close> is the parameter \<open>opens\<close>: whether the file
  at a path can be opened.
\<close>

definition MusicPlayer_setupTrack ::
  "build \<Rightarrow> (string \<Rightarrow> bool) \<Rightarrow> AudioProperties \<Rightarrow> string \<Rightarrow> globals \<Rightarrow> 'k MusicPlayer
     \<Rightarrow> error + globals \<times> 'k MusicPlayer" where
  "MusicPlayer_setupTrack b opens properties filepath g mp =
     (if tracks mp = [] then Inl UndefinedBehaviour
      else
        let rbegin = last (tracks mp) in
        if opens filepath then
          Inr (g, mp\<lparr>tracks := map_modify (fst rbegin)
            (\<lambda>track. track\<lparr>music :=
               (Music_opened filepath (music track))
                 \<lparr>m_attenuation := getAttenuation properties,
                  m_pitch := getPitch properties,
                  m_minDistance := getMinDistance3D properties,
                  m_relativeToListener := isRelativeToListener properties\<rparr>\<rparr>)
            (tracks mp)\<rparr>)
        else
          Inr (debugMessage b
                 (''ae::MusicPlayer<T>::loadTrack - Failed to open \"'' @ filepath @ ''\"'') g,
               mp\<lparr>tracks := map_erase (fst rbegin) (tracks mp)\<rparr>))"

definition MusicPlayer_load_with ::
  "build \<Rightarrow> (string \<Rightarrow> bool) \<Rightarrow> string \<Rightarrow> AudioProperties \<Rightarrow> 'k::linorder \<Rightarrow> globals
     \<Rightarrow> 'k MusicPlayer \<Rightarrow> error + globals \<times> 'k MusicPlayer" where
  "MusicPlayer_load_with b opens filepath properties ident g mp =
     (if map_find ident (tracks mp) = None then
        MusicPlayer_setupTrack b opens properties filepath g
          (mp\<lparr>tracks := map_insert ident (MusicTrack_new (getVolume properties)) (tracks mp)\<rparr>)
      else
        Inr (debugMessage b
               ''ae::MusicPlayer<T>::load - Attempt to load in music track that's already loaded in'' g,
             mp))"

definition MusicPlayer_load ::
  "build \<Rightarrow> (string \<Rightarrow> bool) \<Rightarrow> string \<Rightarrow> 'k::linorder \<Rightarrow> globals \<Rightarrow> 'k MusicPlayer
     \<Rightarrow> error + globals \<times> 'k MusicPlayer" where
  "MusicPlayer_load b opens filepath ident g mp =
     (if map_find ident (tracks mp) = None then
        let properties = AudioProperties_default g in
        MusicPlayer_setupTrack b opens properties filepath g
          (mp\<lparr>tracks := map_insert ident (MusicTrack_new (getVolume properties)) (tracks mp)\<rparr>)
      else
        Inr (debugMessage b
               ''ae::MusicPlayer<T>::load - Attempt to load in music track that's already loaded in'' g,
             mp))"

definition MusicPlayer_unload ::
  "build \<Rightarrow> 'k \<Rightarrow> globals \<Rightarrow> 'k MusicPlayer \<Rightarrow> error + globals \<times> 'k MusicPlayer" where
  "MusicPlayer_unload b ident g mp =
     (case map_find ident (tracks mp) of
        None \<Rightarrow> lookup_miss b
          ''ae::MusicPlayer<T>::unload - The ID provided isn't associated with any music track'' g mp
      | Some found \<Rightarrow> Inr (g, mp\<lparr>tracks := map_erase ident (tracks mp)\<rparr>))"

subsection \<open>SoundPlayer\<close>

record ('k, 'r) SoundEffect =
  sound :: "'r Sound"
  effect_id :: 'k

definition SoundEffect_new :: "'r \<Rightarrow> 'k \<Rightarrow> ('k, 'r) SoundEffect" where
  "SoundEffect_new buffer ident = \<lparr>sound = Sound_new buffer, effect_id = ident\<rparr>"

record ('k, 'r) SoundPlayer = AudioPlayer +
  soundBuffers :: "('k, 'r) ResourceHolder"
  soundProperties :: "('k \<times> AudioProperties) list"
  sounds :: "('k, 'r) SoundEffect list"

definition SoundPlayer_new :: "globals \<Rightarrow> globals \<times> ('k, 'r) SoundPlayer" where
  "SoundPlayer_new g =
     (AudioPlayer_init g,
      \<lparr>globalVolume = Finite 100, soundBuffers = \<lparr>resourceMap = []\<rparr>, soundProperties = [],
       sounds = []\<rparr>)"

definition SoundPlayer_removeStoppedSounds :: "('k, 'r) SoundPlayer \<Rightarrow> ('k, 'r) SoundPlayer" where
  "SoundPlayer_removeStoppedSounds sp =
     sp\<lparr>sounds := filter (\<lambda>e. \<not> (Sound_getStatus (sound e) = Stopped)) (sounds sp)\<rparr>"

text \<open>
  \<open>play\<close> dereferences the pointer returned by \<open>soundBuffers_.get(id)\<close> without a
  check: a null pointer there is undefined behaviour in both builds.
\<close>

definition SoundPlayer_play_at ::
  "build \<Rightarrow> float \<times> float \<Rightarrow> 'k \<Rightarrow> globals \<Rightarrow> ('k, 'r) SoundPlayer
     \<Rightarrow> error + globals \<times> ('k, 'r) SoundPlayer" where
  "SoundPlayer_play_at b position ident g sp0 =
     (let sp = SoundPlayer_removeStoppedSounds sp0 in
      case map_find ident (soundProperties sp) of
        None \<Rightarrow> lookup_miss b ''ae::SoundPlayer<T>::play - Unable to find sound effect'' g sp
      | Some props \<Rightarrow>
          (case ResourceHolder_get b ident g (soundBuffers sp) of
             Inl e \<Rightarrow> Inl e
           | Inr (g1, None) \<Rightarrow> Inl UndefinedBehaviour
           | Inr (g1, Some buffer) \<Rightarrow>
               (let effect = SoundEffect_new buffer ident;
                    effect1 = effect\<lparr>sound :=
                      Sound_play
                        ((sound effect)\<lparr>s_position := (fst position, negf (snd position), Finite 0),
                                       s_volume := divf (mulf (getGlobalVolume sp) (getVolume props)) (Finite 100),
                                       s_attenuation := getAttenuation props,
                                       s_pitch := getPitch props,
                                       s_minDistance := getMinDistance3D props,
                                       s_relativeToListener := isRelativeToListener props\<rparr>)\<rparr>
                in Inr (g1, sp\<lparr>sounds := sounds sp @ [effect1]\<rparr>))))"

definition SoundPlayer_play ::
  "build \<Rightarrow> 'k \<Rightarrow> globals \<Rightarrow> ('k, 'r) SoundPlayer \<Rightarrow> error + globals \<times> ('k, 'r) SoundPlayer" where
  "SoundPlayer_play b ident g sp = SoundPlayer_play_at b (getListenerPosition g) ident g sp"

definition SoundPlayer_pause :: "bool \<Rightarrow> ('k, 'r) SoundPlayer \<Rightarrow> ('k, 'r) SoundPlayer" where
  "SoundPlayer_pause flag sp =
     (if flag then
        sp\<lparr>sounds := map (\<lambda>effect. effect\<lparr>sound := Sound_pause (sound effect)\<rparr>) (sounds sp)\<rparr>
      else
        sp\<lparr>sounds := map
          (\<lambda>effect. if Sound_getStatus (sound effect) = Paused
                     then effect\<lparr>sound := Sound_play (sound effect)\<rparr> else effect)
          (sounds sp)\<rparr>)"

definition SoundPlayer_stop :: "('k, 'r) SoundPlayer \<Rightarrow> ('k, 'r) SoundPlayer" where
  "SoundPlayer_stop sp =
     SoundPlayer_removeStoppedSounds
       (sp\<lparr>sounds := map (\<lambda>effect. effect\<lparr>sound := Sound_stop (sound effect)\<rparr>) (sounds sp)\<rparr>)"

text \<open>
  The loop of \<open>setGlobalVolume\<close> over the active effects. With \<open>_DEBUG\<close>, an effect
  whose identifier has no properties ends the loop with a \<open>return\<close>: the effects
  behind it keep their volume, and the flag of the result says that the message was
  cached.
\<close>

fun SoundPlayer_rescale ::
  "build \<Rightarrow> float \<Rightarrow> ('k \<times> AudioProperties) list \<Rightarrow> ('k, 'r) SoundEffect list
     \<Rightarrow> error + ('k, 'r) SoundEffect list \<times> bool" where
  "SoundPlayer_rescale b GLOBAL_VOLUME props [] = Inr ([], False)"
| "SoundPlayer_rescale b GLOBAL_VOLUME props (effect # rest) =
     (case map_find (effect_id effect) props of
        None \<Rightarrow> (case b of Debug \<Rightarrow> Inr (effect # rest, True) | Release \<Rightarrow> Inl UndefinedBehaviour)
      | Some found \<Rightarrow>
          (case SoundPlayer_rescale b GLOBAL_VOLUME props rest of
             Inl e \<Rightarrow> Inl e
           | Inr (rest1, missed) \<Rightarrow>
               Inr (effect\<lparr>sound := (sound effect)\<lparr>s_volume := divf (mulf GLOBAL_VOLUME (getVolume found)) (Finite 100)\<rparr>\<rparr>
                      # rest1, missed)))"

definition SoundPlayer_setGlobalVolume ::
  "build \<Rightarrow> float \<Rightarrow> globals \<Rightarrow> ('k, 'r) SoundPlayer \<Rightarrow> error + globals \<times> ('k, 'r) SoundPlayer" where
  "SoundPlayer_setGlobalVolume b gv g sp =
     (let sp1 = AudioPlayer_setGlobalVolume gv sp;
          GLOBAL_VOLUME = getGlobalVolume sp1
      in case SoundPlayer_rescale b GLOBAL_VOLUME (soundProperties sp1) (sounds sp1) of
           Inl e \<Rightarrow> Inl e
         | Inr (effects, missed) \<Rightarrow>
             Inr (if missed
                  then cacheMessage ''ae::SoundPlayer<T>::setGlobalVolume - Unable to find a sound effect'' g
                  else g,
                  sp1\<lparr>sounds := effects\<rparr>))"

definition SoundPlayer_load ::
  "build \<Rightarrow> (string \<Rightarrow> 'r option) \<Rightarrow> string \<Rightarrow> 'k::linorder \<Rightarrow> globals \<Rightarrow> ('k, 'r) SoundPlayer
     \<Rightarrow> globals \<times> ('k, 'r) SoundPlayer" where
  "SoundPlayer_load b loadFromFile filepath ident g sp =
     (case ResourceHolder_load b loadFromFile filepath ident g (soundBuffers sp) of
        (g1, buffers) \<Rightarrow>
          (g1, sp\<lparr>soundBuffers := buffers,
                  soundProperties := map_insert ident (AudioProperties_default g1) (soundProperties sp)\<rparr>))"

definition SoundPlayer_load_with ::
  "build \<Rightarrow> (string \<Rightarrow> 'r option) \<Rightarrow> string \<Rightarrow> AudioProperties \<Rightarrow> 'k::linorder \<Rightarrow> globals
     \<Rightarrow> ('k, 'r) SoundPlayer \<Rightarrow> globals \<times> ('k, 'r) SoundPlayer" where
  "SoundPlayer_load_with b loadFromFile filepath properties ident g sp =
     (case ResourceHolder_load b loadFromFile filepath ident g (soundBuffers sp) of
        (g1, buffers) \<Rightarrow>
          (g1, sp\<lparr>soundBuffers := buffers,
                  soundProperties :=
                    map_insert ident (AudioProperties_copy properties) (soundProperties sp)\<rparr>))"

definition SoundPlayer_unload ::
  "build \<Rightarrow> 'k \<Rightarrow> globals \<Rightarrow> ('k, 'r) SoundPlayer \<Rightarrow> error + globals \<times> ('k, 'r) SoundPlayer" where
  "SoundPlayer_unload b ident g sp =
     (case map_find ident (soundProperties sp) of
        None \<Rightarrow> lookup_miss b
          ''ae::SoundPlayer<T>::unload - The ID provided isn't associated with any sound effect'' g sp
      | Some found \<Rightarrow>
          (let sp1 = sp\<lparr>soundProperties := map_erase ident (soundProperties sp)\<rparr>;
               sp2 = sp1\<lparr>sounds := filter (\<lambda>e. \<not> (effect_id e = ident)) (sounds sp1)\<rparr>
           in case ResourceHolder_unload b ident g (soundBuffers sp2) of
                Inl e \<Rightarrow> Inl e
              | Inr (g1, buffers) \<Rightarrow> Inr (g1, sp2\<lparr>soundBuffers := buffers\<rparr>)))"

text \<open>Every active effect has a properties entry: what \<open>setGlobalVolume\<close> relies on.\<close>

definition SoundPlayer_inv :: "('k, 'r) SoundPlayer \<Rightarrow> bool" where
  "SoundPlayer_inv sp =
     list_all (\<lambda>e. \<not> (map_find (effect_id e) (soundProperties sp) = None)) (sounds sp)"

subsection \<open>Math::pascalTriangle\<close>

text \<open>
  \<open>int\<close> is the 32-bit signed integer. Signed overflow is undefined in C++: an
  arithmetic result outside the range is the error \<open>SignedOverflow\<close>. \<open>/\<close> on
  integers truncates towards zero. Every \<open>row[i]\<close> checks its index, so an access
  outside the vector is the error \<open>OutOfBounds\<close>.
\<close>

definition INT_MAX :: int where
  "INT_MAX = 2147483647"

definition INT_MIN :: int where
  "INT_MIN = - 2147483648"

definition int_fits :: "int \<Rightarrow> bool" where
  "int_fits x = (INT_MIN \<le> x \<and> x \<le> INT_MAX)"

definition c_div :: "int \<Rightarrow> int \<Rightarrow> int" where
  "c_div a b = (if (a < 0) = (b < 0) then \<bar>a\<bar> div \<bar>b\<bar> else - (\<bar>a\<bar> div \<bar>b\<bar>))"

text \<open>\<open>for (int i = 1; i < n / 2 + 1; i++) row[i] = row[i - 1] * (n - i + 1) / i;\<close>\<close>

function pascal_loop1 :: "int \<Rightarrow> int \<Rightarrow> int list \<Rightarrow> error + int list" where
  "pascal_loop1 n i row =
     (if i < c_div n 2 + 1 then
        if i - 1 < 0 \<or> int (length row) \<le> i then Inl OutOfBounds
        else
          let product = row ! nat (i - 1) * (n - i + 1) in
          if \<not> int_fits product then Inl SignedOverflow
          else pascal_loop1 n (i + 1) (row[nat i := c_div product i])
      else Inr row)"
  by pat_completeness auto
termination
  by (relation "measure (\<lambda>(n, i, row). nat (c_div n 2 + 1 - i))") auto

declare pascal_loop1.simps [simp del]

text \<open>\<open>for (int i = n / 2 + 1; i <= n; i++) row[i] = row[n - i];\<close>\<close>

function pascal_loop2 :: "int \<Rightarrow> int \<Rightarrow> int list \<Rightarrow> error + int list" where
  "pascal_loop2 n i row =
     (if i \<le> n then
        if i < 0 \<or> int (length row) \<le> i \<or> n - i < 0 \<or> int (length row) \<le> n - i
        then Inl OutOfBounds
        else pascal_loop2 n (i + 1) (row[nat i := row ! nat (n - i)])
      else Inr row)"
  by pat_completeness auto
termination
  by (relation "measure (\<lambda>(n, i, row). nat (n + 1 - i))") auto

declare pascal_loop2.simps [simp del]

text \<open>
  \<open>std::vector<int> row(n + 1)\<close> holds \<open>n + 1\<close> zeros; a negative size, converted to
  the unsigned size type, is beyond the vector's maximal size.
\<close>

definition pascalTriangle :: "int \<Rightarrow> error + int list" where
  "pascalTriangle n =
     (if \<not> int_fits (n + 1) then Inl SignedOverflow
      else if n + 1 < 0 then Inl LengthError
      else
        let row = replicate (nat (n + 1)) 0 in
        if row = [] then Inl OutOfBounds
        else
          case pascal_loop1 n 1 (row[0 := 1]) of
            Inl e \<Rightarrow> Inl e
          | Inr row1 \<Rightarrow> pascal_loop2 n (c_div n 2 + 1) row1)"

text \<open>Row \<open>n\<close> of Pascal's triangle, as the binomial coefficients.\<close>

definition binomial_row :: "nat \<Rightarrow> int list" where
  "binomial_row n = map (\<lambda>i. int (n choose i)) [0..<Suc n]"

subsection \<open>Notions of the specification\<close>

text \<open>
  \<open>clamp(v, lo, hi)\<close> and \<open>max(a, b)\<close> as the specification uses them, by
  comparison.
\<close>

definition clamp :: "float \<Rightarrow> float \<Rightarrow> float \<Rightarrow> float" where
  "clamp v lo hi = (if lessf v lo then lo else if lessf hi v then hi else v)"

definition maxf :: "float \<Rightarrow> float \<Rightarrow> float" where
  "maxf a b = (if lessf a b then b else a)"


text \<open>
  The pause rule of the specification for one track: \<open>pause(true)\<close> pauses a playing
  track, \<open>pause(false)\<close> resumes a paused one, and a track in any other state is left
  as it is.
\<close>

definition paused_or_resumed :: "bool \<Rightarrow> MusicTrack \<Rightarrow> MusicTrack" where
  "paused_or_resumed flag track =
     (if flag \<and> m_status (music track) = Playing
      then track\<lparr>music := (music track)\<lparr>m_status := Paused\<rparr>\<rparr>
      else if \<not> flag \<and> m_status (music track) = Paused
      then track\<lparr>music := (music track)\<lparr>m_status := Playing\<rparr>\<rparr>
      else track)"

text \<open>
  Every product \<open>row[i - 1] * (n - i + 1)\<close> that the first loop of
  \<open>pascalTriangle\<close> forms, taken on the binomial coefficients, is in the range of
  \<open>int\<close>.
\<close>

definition products_fit :: "int \<Rightarrow> bool" where
  "products_fit n =
     list_all (\<lambda>i. int_fits (int (nat n choose nat (i - 1)) * (n - i + 1))) [1..c_div n 2]"

section \<open>Properties\<close>

subsection \<open>The map operations\<close>

lemma map_find_insort_key:
  "map_find k' m = None \<Longrightarrow>
   map_find k (insort_key fst (k', v) m) = (if k = k' then Some v else map_find k m)"
  by (induction m) (auto simp: map_find_def split: if_splits)

lemma map_find_insert:
  "map_find k (map_insert k' v m) = (if k = k' \<and> map_find k' m = None then Some v else map_find k m)"
  by (auto simp: map_insert_def map_find_insort_key)

lemma map_insert_present: "map_find k m = Some w \<Longrightarrow> map_insert k v m = m"
  by (simp add: map_insert_def)

lemma map_find_erase: "map_find k (map_erase k' m) = (if k = k' then None else map_find k m)"
  by (induction m) (auto simp: map_find_def map_erase_def)

lemma map_find_modify:
  "map_find k (map_modify k' f m) = (if k = k' then map_option f (map_find k m) else map_find k m)"
  by (induction m) (auto simp: map_find_def map_modify_def)

lemma map_find_for_each: "map_find k (map_for_each f m) = map_option f (map_find k m)"
  by (induction m) (auto simp: map_find_def map_for_each_def)

lemma map_fst_modify: "map fst (map_modify k f m) = map fst m"
  by (induction m) (auto simp: map_modify_def)

lemma map_fst_for_each: "map fst (map_for_each f m) = map fst m"
  by (induction m) (auto simp: map_for_each_def)

lemma map_erase_absent: "map_find k m = None \<Longrightarrow> map_erase k m = m"
  by (induction m) (auto simp: map_find_def map_erase_def split: if_splits)

text \<open>
  The operations keep the association list in strict key order, so it stands for a
  \<open>std::map\<close>: at most one entry per key, and \<open>rbegin()\<close> is the last entry.
\<close>

lemma map_find_None_iff: "map_find k m = None \<longleftrightarrow> k \<notin> fst ` set m"
  by (simp add: map_find_def map_of_eq_None_iff)

lemma map_ordered_insort:
  "map_ordered m \<Longrightarrow> k \<notin> fst ` set m \<Longrightarrow> map_ordered (insort_key fst (k, v) m)"
  by (induction m) (auto simp: map_ordered_def set_insort_key)

lemma map_ordered_insert: "map_ordered m \<Longrightarrow> map_ordered (map_insert k v m)"
  by (simp add: map_insert_def map_ordered_insort map_find_None_iff)

lemma map_ordered_erase: "map_ordered m \<Longrightarrow> map_ordered (map_erase k m)"
  by (induction m) (auto simp: map_ordered_def map_erase_def)

lemma map_ordered_modify: "map_ordered m \<Longrightarrow> map_ordered (map_modify k f m)"
  by (simp add: map_ordered_def map_fst_modify)

lemma map_ordered_for_each: "map_ordered m \<Longrightarrow> map_ordered (map_for_each f m)"
  by (simp add: map_ordered_def map_fst_for_each)

lemma insort_key_greatest:
  "\<forall>k' \<in> fst ` set m. k' < k \<Longrightarrow> insort_key fst (k, v) m = m @ [(k, v)]"
  by (induction m) auto

lemma map_erase_appended:
  "\<forall>k' \<in> fst ` set m. k' < (k::'k::linorder) \<Longrightarrow> map_erase k (m @ [(k, v)]) = m"
  by (induction m) (auto simp: map_erase_def)

subsection \<open>AudioProperties\<close>


lemma overflowf_in_range: "- FLT_MAX \<le> r \<Longrightarrow> r \<le> FLT_MAX \<Longrightarrow> overflowf r = Finite r"
  by (simp add: overflowf_def)

lemma clamp_min_max:
  "fmaxf (fminf v (Finite 100)) (Finite 0)
     = (if v = NaN then Finite 100 else clamp v (Finite 0) (Finite 100))"
  by (cases v) (auto simp: fmaxf_def fminf_def clamp_def)

lemma fmaxf_maxf: "fmaxf a (Finite c) = (if a = NaN then Finite c else maxf a (Finite c))"
  by (cases a) (auto simp: fmaxf_def maxf_def)

text \<open>
  C5, as stated, fails. A NaN volume is stored as 100 and a NaN attenuation as 0,
  because \<open>fminf\<close> and \<open>fmaxf\<close> return their other argument; \<open>clamp\<close> and
  \<open>max\<close>, which compare, leave a NaN as it is.
\<close>

theorem NaN_volume_and_attenuation_not_clamped:
  "getVolume (AudioProperties_new \<lparr>listener = (Finite 0, Finite 0, Finite 300), messages = []\<rparr>
       NaN (Finite 1) (Finite 1) (Finite 1) False)
     \<noteq> clamp NaN (Finite 0) (Finite 100)
   \<and> getVolume (AudioProperties_new \<lparr>listener = (Finite 0, Finite 0, Finite 300), messages = []\<rparr>
       NaN (Finite 1) (Finite 1) (Finite 1) False) = Finite 100
   \<and> getAttenuation
       (AudioProperties_new \<lparr>listener = (Finite 0, Finite 0, Finite 300), messages = []\<rparr>
         (Finite 100) NaN (Finite 1) (Finite 1) False)
     \<noteq> maxf NaN (Finite 0)
   \<and> getAttenuation
       (AudioProperties_new \<lparr>listener = (Finite 0, Finite 0, Finite 300), messages = []\<rparr>
         (Finite 100) NaN (Finite 1) (Finite 1) False) = Finite 0"
  by (simp add: AudioProperties_new_def getVolume_def getAttenuation_def setVolume_def
      setAttenuation_def setMinDistance2D_def fmaxf_def fminf_def clamp_def maxf_def Let_def)

text \<open>
  C5, amended. For every input that is not NaN, infinities included, the constructor
  and the setters store \<open>clamp(v, 0, 100)\<close> as the volume and \<open>max(a, 0)\<close> as the
  attenuation; a NaN volume is stored as 100 and a NaN attenuation as 0. The other
  setters leave the two stored values alone. The functions are total: no input is
  rejected and no error is signalled.
\<close>

theorem AudioProperties_volume_attenuation_clamped:
  "getVolume (AudioProperties_new g v a pt d r)
     = (if v = NaN then Finite 100 else clamp v (Finite 0) (Finite 100))
   \<and> getAttenuation (AudioProperties_new g v a pt d r)
     = (if a = NaN then Finite 0 else maxf a (Finite 0))
   \<and> getVolume (setVolume v p) = (if v = NaN then Finite 100 else clamp v (Finite 0) (Finite 100))
   \<and> getAttenuation (setAttenuation a p) = (if a = NaN then Finite 0 else maxf a (Finite 0))
   \<and> getVolume (setAttenuation a p) = getVolume p
   \<and> getVolume (setMinDistance2D g d p) = getVolume p
   \<and> getVolume (setPitch pt p) = getVolume p
   \<and> getVolume (setRelativeToListener r p) = getVolume p
   \<and> getAttenuation (setVolume v p) = getAttenuation p
   \<and> getAttenuation (setMinDistance2D g d p) = getAttenuation p
   \<and> getAttenuation (setPitch pt p) = getAttenuation p
   \<and> getAttenuation (setRelativeToListener r p) = getAttenuation p"
proof -
  have vol: "p_volume (setVolume v q) = (if v = NaN then Finite 100 else clamp v (Finite 0) (Finite 100))"
    for q
    by (simp add: setVolume_def clamp_min_max)
  have att: "p_attenuation (setAttenuation a q) = (if a = NaN then Finite 0 else maxf a (Finite 0))"
    for q
    by (simp add: setAttenuation_def fmaxf_maxf)
  have new_vol: "p_volume (AudioProperties_new g v a pt d r) = p_volume (setVolume v q)" for q
    by (simp add: AudioProperties_new_def setVolume_def setAttenuation_def setMinDistance2D_def
        Let_def)
  have new_att: "p_attenuation (AudioProperties_new g v a pt d r) = p_attenuation (setAttenuation a q)"
    for q
    by (simp add: AudioProperties_new_def setVolume_def setAttenuation_def setMinDistance2D_def
        Let_def)
  have frame: "p_volume (setAttenuation a p) = p_volume p"
    "p_volume (setMinDistance2D g d p) = p_volume p"
    "p_volume (setPitch pt p) = p_volume p"
    "p_volume (setRelativeToListener r p) = p_volume p"
    "p_attenuation (setVolume v p) = p_attenuation p"
    "p_attenuation (setMinDistance2D g d p) = p_attenuation p"
    "p_attenuation (setPitch pt p) = p_attenuation p"
    "p_attenuation (setRelativeToListener r p) = p_attenuation p"
    by (simp_all add: setVolume_def setAttenuation_def setMinDistance2D_def setPitch_def
        setRelativeToListener_def Let_def)
  show ?thesis
    unfolding getVolume_def getAttenuation_def
    using vol [of p] att [of p] new_vol [of p] new_att [of p] frame by simp
qed






subsection \<open>ResourceHolder\<close>

text \<open>
  C8. When the resource cannot be loaded from the file, each of the three \<open>load\<close>
  overloads returns normally with the holder unchanged; the debug build appends its
  message to the debug log and the release build leaves the log as it was. The
  listener is not touched.
\<close>

theorem ResourceHolder_load_failure_stores_nothing:
  assumes "loadFromFile filepath = None"
    and "loadFromFile1 filepath t = None"
    and "loadFromFile2 filepath t u = None"
  shows "ResourceHolder_load Debug loadFromFile filepath ident g h
           = (g\<lparr>messages := messages g
                @ [''ae::ResourceHolder::load - Failed to load \"'' @ filepath @ ''\"'']\<rparr>, h)
       \<and> ResourceHolder_load Release loadFromFile filepath ident g h = (g, h)
       \<and> ResourceHolder_load1 Debug loadFromFile1 filepath t ident g h
           = (g\<lparr>messages := messages g
                @ [''ae::ResourceHolder::load<T> - Failed to load \"'' @ filepath @ ''\"'']\<rparr>, h)
       \<and> ResourceHolder_load1 Release loadFromFile1 filepath t ident g h = (g, h)
       \<and> ResourceHolder_load2 Debug loadFromFile2 filepath t u ident g h
           = (g\<lparr>messages := messages g
                @ [''ae::ResourceHolder::load<T,K> - Failed to load \"'' @ filepath @ ''\"'']\<rparr>, h)
       \<and> ResourceHolder_load2 Release loadFromFile2 filepath t u ident g h = (g, h)"
  using assms
  by (simp add: ResourceHolder_load_def ResourceHolder_load1_def ResourceHolder_load2_def
      debugMessage_def cacheMessage_def)

theorem ResourceHolder_load_failure_witness:
  "ResourceHolder_load Debug (\<lambda>f. if f = ''a.png'' then Some (7::nat) else None) ''b.png'' (2::nat)
       \<lparr>listener = (Finite 0, Finite 0, Finite 300), messages = []\<rparr> \<lparr>resourceMap = [(1, 7)]\<rparr>
     = (\<lparr>listener = (Finite 0, Finite 0, Finite 300),
         messages = [''ae::ResourceHolder::load - Failed to load \"b.png\"'']\<rparr>,
        \<lparr>resourceMap = [(1, 7)]\<rparr>)
   \<and> ResourceHolder_load2 Release
       (\<lambda>f (t::nat) (u::nat). if f = ''a.vert'' then Some (7::nat) else None) ''b.png'' 0 0 (2::nat)
       \<lparr>listener = (Finite 0, Finite 0, Finite 300), messages = []\<rparr> \<lparr>resourceMap = [(1, 7)]\<rparr>
     = (\<lparr>listener = (Finite 0, Finite 0, Finite 300), messages = []\<rparr>, \<lparr>resourceMap = [(1, 7)]\<rparr>)"
  using ResourceHolder_load_failure_stores_nothing
    [of "\<lambda>f. if f = ''a.png'' then Some (7::nat) else None" "''b.png''"
        "\<lambda>f (t::nat). if f = ''a.frag'' then Some (7::nat) else None" 0
        "\<lambda>f (t::nat) (u::nat). if f = ''a.vert'' then Some (7::nat) else None" 0
        "2::nat" "\<lparr>listener = (Finite 0, Finite 0, Finite 300), messages = []\<rparr>" "\<lparr>resourceMap = [(1, 7)]\<rparr>"]
  by simp

subsection \<open>MusicPlayer\<close>

text \<open>
  C4. Loading an identifier that is already loaded returns the player as it was, with
  either overload: the first track is neither replaced nor duplicated. The debug
  build caches its message; the release build changes nothing at all.
\<close>

theorem MusicPlayer_load_loaded_id_is_noop:
  assumes "map_find ident (tracks mp) = Some track"
  shows "MusicPlayer_load Debug opens filepath ident g mp
           = Inr (g\<lparr>messages := messages g
                @ [''ae::MusicPlayer<T>::load - Attempt to load in music track that's already loaded in'']\<rparr>, mp)
       \<and> MusicPlayer_load Release opens filepath ident g mp = Inr (g, mp)
       \<and> MusicPlayer_load_with Debug opens filepath properties ident g mp
           = Inr (g\<lparr>messages := messages g
                @ [''ae::MusicPlayer<T>::load - Attempt to load in music track that's already loaded in'']\<rparr>, mp)
       \<and> MusicPlayer_load_with Release opens filepath properties ident g mp = Inr (g, mp)"
  using assms
  by (simp add: MusicPlayer_load_def MusicPlayer_load_with_def debugMessage_def cacheMessage_def)

theorem MusicPlayer_load_loaded_id_witness:
  "MusicPlayer_load Debug (\<lambda>f. f = ''a.ogg'') ''b.ogg'' (1::nat)
      \<lparr>listener = (Finite 0, Finite 0, Finite 300), messages = []\<rparr>
      \<lparr>globalVolume = Finite 100, tracks = [(1, MusicTrack_new (Finite 100))]\<rparr>
    = Inr (\<lparr>listener = (Finite 0, Finite 0, Finite 300),
            messages = [''ae::MusicPlayer<T>::load - Attempt to load in music track that's already loaded in'']\<rparr>,
           \<lparr>globalVolume = Finite 100, tracks = [(1, MusicTrack_new (Finite 100))]\<rparr>)"
  using MusicPlayer_load_loaded_id_is_noop
    [of "1::nat" "\<lparr>globalVolume = Finite 100, tracks = [(1, MusicTrack_new (Finite 100))]\<rparr>" "MusicTrack_new (Finite 100)"
        "\<lambda>f. f = ''a.ogg''" "''b.ogg''" "\<lparr>listener = (Finite 0, Finite 0, Finite 300), messages = []\<rparr>"]
  by (simp add: map_find_def)

text \<open>
  A player that holds the track 2, as \<open>load\<close> leaves it after opening a file with the
  default properties.
\<close>

lemma MusicPlayer_load_first_track:
  "MusicPlayer_load b (\<lambda>f. f = ''a.ogg'') ''a.ogg'' (2::nat)
      \<lparr>listener = (Finite 0, Finite 0, Finite 300), messages = []\<rparr> \<lparr>globalVolume = Finite 100, tracks = []\<rparr>
    = Inr (\<lparr>listener = (Finite 0, Finite 0, Finite 300), messages = []\<rparr>,
           \<lparr>globalVolume = Finite 100,
            tracks = [(2, \<lparr>music = (Music_opened ''a.ogg'' Music_new)\<lparr>m_minDistance := Finite (sqrt 90001)\<rparr>,
                          VOLUME = Finite 100\<rparr>)]\<rparr>)"
  by (simp add: MusicPlayer_load_def MusicPlayer_setupTrack_def map_find_def map_insert_def
      map_modify_def AudioProperties_default_def AudioProperties_new_def setVolume_def
      setAttenuation_def setMinDistance2D_def getVolume_def getAttenuation_def getPitch_def
      getMinDistance3D_def isRelativeToListener_def fmaxf_def fminf_def listener_z_def
      overflowf_def FLT_MAX_def MusicTrack_new_def Music_new_def Music_opened_def Let_def)

text \<open>
  C2 fails on the code. With the track 2 loaded, \<open>load\<close> of a file that cannot be
  opened under the identifier 1 inserts the entry for 1 and then, in \<open>setupTrack\<close>,
  works on \<open>tracks_.rbegin()\<close>, which is the entry of the greatest key 2: the loaded
  track 2 is erased, and the entry just inserted for 1 stays, never opened.
\<close>

theorem MusicPlayer_load_failure_erases_greatest_key:
  "MusicPlayer_load b (\<lambda>f. f = ''a.ogg'') ''missing.ogg'' (1::nat)
      \<lparr>listener = (Finite 0, Finite 0, Finite 300), messages = []\<rparr>
      \<lparr>globalVolume = Finite 100,
       tracks = [(2, \<lparr>music = (Music_opened ''a.ogg'' Music_new)\<lparr>m_minDistance := Finite (sqrt 90001)\<rparr>,
                     VOLUME = Finite 100\<rparr>)]\<rparr>
    = Inr (debugMessage b ''ae::MusicPlayer<T>::loadTrack - Failed to open \"missing.ogg\"''
             \<lparr>listener = (Finite 0, Finite 0, Finite 300), messages = []\<rparr>,
           \<lparr>globalVolume = Finite 100, tracks = [(1, MusicTrack_new (Finite 100))]\<rparr>)"
  by (simp add: MusicPlayer_load_def MusicPlayer_setupTrack_def map_find_def map_insert_def
        map_erase_def AudioProperties_default_def AudioProperties_new_def setVolume_def
        setAttenuation_def setMinDistance2D_def getVolume_def fmaxf_def fminf_def Let_def)

text \<open>
  The rollback does restore the player when the new identifier is greater than every
  loaded one, the case in which \<open>rbegin()\<close> is the inserted entry.
\<close>

lemma MusicPlayer_load_failure_rollback_greatest:
  assumes "\<forall>k' \<in> fst ` set (tracks mp). k' < ident" and "\<not> opens filepath"
  shows "MusicPlayer_load b opens filepath ident g mp
           = Inr (debugMessage b
                    (''ae::MusicPlayer<T>::loadTrack - Failed to open \"'' @ filepath @ ''\"'') g, mp)
       \<and> MusicPlayer_load_with b opens filepath properties ident g mp
           = Inr (debugMessage b
                    (''ae::MusicPlayer<T>::loadTrack - Failed to open \"'' @ filepath @ ''\"'') g, mp)"
proof -
  have absent: "map_find ident (tracks mp) = None"
    using assms(1) by (auto simp: map_find_None_iff)
  have ins: "map_insert ident v (tracks mp) = tracks mp @ [(ident, v)]" for v
    using assms(1) absent by (simp add: map_insert_def insort_key_greatest)
  show ?thesis
    using assms absent
    by (simp add: MusicPlayer_load_def MusicPlayer_load_with_def MusicPlayer_setupTrack_def ins
        map_erase_appended Let_def)
qed

text \<open>
  C6. \<open>pause(flag)\<close> applies the pause rule to every track and keeps every key;
  \<open>pause(id, flag)\<close> on a loaded identifier applies it to the entry of that
  identifier and leaves every other entry as it was.
\<close>

theorem MusicPlayer_pause_rule:
  assumes "map_find ident (tracks mp) = Some track"
  shows "tracks (MusicPlayer_pause flag mp)
           = map (\<lambda>kv. (fst kv, paused_or_resumed flag (snd kv))) (tracks mp)
       \<and> globalVolume (MusicPlayer_pause flag mp) = globalVolume mp
       \<and> MusicPlayer_pause_id b ident flag g mp
           = Inr (g, mp\<lparr>tracks := map (\<lambda>kv. if fst kv = ident
                                              then (fst kv, paused_or_resumed flag (snd kv)) else kv)
                                     (tracks mp)\<rparr>)"
  using assms
  by (auto simp: MusicPlayer_pause_def MusicPlayer_pause_id_def map_for_each_def map_modify_def
      paused_or_resumed_def Music_pause_def Music_play_def Music_getStatus_def)

theorem MusicPlayer_pause_witness:
  "tracks (MusicPlayer_pause True
      \<lparr>globalVolume = Finite 100,
       tracks = [(1::nat, \<lparr>music = Music_new\<lparr>m_status := Playing\<rparr>, VOLUME = Finite 100\<rparr>),
                 (2, \<lparr>music = Music_new\<lparr>m_status := Paused\<rparr>, VOLUME = Finite 100\<rparr>),
                 (3, \<lparr>music = Music_new\<lparr>m_status := Stopped\<rparr>, VOLUME = Finite 100\<rparr>)]\<rparr>)
    = [(1, \<lparr>music = Music_new\<lparr>m_status := Paused\<rparr>, VOLUME = Finite 100\<rparr>),
       (2, \<lparr>music = Music_new\<lparr>m_status := Paused\<rparr>, VOLUME = Finite 100\<rparr>),
       (3, \<lparr>music = Music_new\<lparr>m_status := Stopped\<rparr>, VOLUME = Finite 100\<rparr>)]"
  using MusicPlayer_pause_rule
    [of "1::nat"
        "\<lparr>globalVolume = Finite 100,
          tracks = [(1::nat, \<lparr>music = Music_new\<lparr>m_status := Playing\<rparr>, VOLUME = Finite 100\<rparr>),
                    (2, \<lparr>music = Music_new\<lparr>m_status := Paused\<rparr>, VOLUME = Finite 100\<rparr>),
                    (3, \<lparr>music = Music_new\<lparr>m_status := Stopped\<rparr>, VOLUME = Finite 100\<rparr>)]\<rparr>"
        "\<lparr>music = Music_new\<lparr>m_status := Playing\<rparr>, VOLUME = Finite 100\<rparr>" True]
  by (simp add: map_find_def paused_or_resumed_def)

subsection \<open>SoundPlayer\<close>

lemma volume_expression_finite:
  assumes "\<bar>g * V\<bar> \<le> FLT_MAX"
  shows "divf (mulf (Finite g) (Finite V)) (Finite 100) = Finite (g * V / 100)"
proof -
  have a: "- FLT_MAX \<le> g * V" "g * V \<le> FLT_MAX"
    using assms by linarith+
  have "\<bar>g * V / 100\<bar> \<le> \<bar>g * V\<bar>"
    by simp
  then have b: "- FLT_MAX \<le> g * V / 100" "g * V / 100 \<le> FLT_MAX"
    using assms by linarith+
  show ?thesis
    by (simp add: overflowf_in_range [OF a] overflowf_in_range [OF b])
qed

lemma SoundPlayer_play_at_loaded:
  assumes "map_find ident (soundProperties sp) = Some props"
    and "map_find ident (resourceMap (soundBuffers sp)) = Some buffer"
  shows "SoundPlayer_play_at b pos ident g sp
    = Inr (g, sp\<lparr>sounds := filter (\<lambda>e. s_status (sound e) \<noteq> Stopped) (sounds sp)
        @ [\<lparr>sound = \<lparr>s_buffer = buffer, s_status = Playing,
                      s_position = (fst pos, negf (snd pos), Finite 0),
                      s_volume = divf (mulf (globalVolume sp) (p_volume props)) (Finite 100),
                      s_attenuation = p_attenuation props, s_pitch = p_pitch props,
                      s_minDistance = p_minDistance3d props,
                      s_relativeToListener = p_relativeToListener props\<rparr>,
            effect_id = ident\<rparr>]\<rparr>)"
  using assms
  by (simp add: SoundPlayer_play_at_def SoundPlayer_removeStoppedSounds_def ResourceHolder_get_def
      SoundEffect_new_def Sound_new_def Sound_play_def Sound_getStatus_def getGlobalVolume_def
      getVolume_def getAttenuation_def getPitch_def getMinDistance3D_def isRelativeToListener_def
      Let_def)

lemma SoundPlayer_rescale_all_found:
  "list_all (\<lambda>e. \<not> (map_find (effect_id e) props = None)) es \<Longrightarrow>
   SoundPlayer_rescale b G props es
     = Inr (map (\<lambda>e. e\<lparr>sound := (sound e)\<lparr>s_volume :=
              divf (mulf G (getVolume (the (map_find (effect_id e) props)))) (Finite 100)\<rparr>\<rparr>) es, False)"
  by (induction es) auto

lemma SoundPlayer_setGlobalVolume_inv:
  assumes "SoundPlayer_inv sp"
  shows "SoundPlayer_setGlobalVolume b gv g sp
    = Inr (g, sp\<lparr>globalVolume := fmaxf (fminf gv (Finite 100)) (Finite 0),
                 sounds := map (\<lambda>e. e\<lparr>sound := (sound e)\<lparr>s_volume :=
                   divf (mulf (fmaxf (fminf gv (Finite 100)) (Finite 0))
                     (getVolume (the (map_find (effect_id e) (soundProperties sp))))) (Finite 100)\<rparr>\<rparr>)
                   (sounds sp)\<rparr>)"
  using assms
  by (simp add: SoundPlayer_setGlobalVolume_def SoundPlayer_inv_def AudioPlayer_setGlobalVolume_def
      getGlobalVolume_def Let_def SoundPlayer_rescale_all_found clamp_min_max)

text \<open>
  C1. For a loaded identifier with nominal volume \<open>V\<close>: \<open>MusicPlayer::play\<close> and
  \<open>MusicPlayer::setGlobalVolume\<close> set the track's volume, \<open>SoundPlayer::play\<close>
  sets the new instance's volume, and \<open>SoundPlayer::setGlobalVolume\<close> sets the volume
  of every active instance of the identifier, to the global volume times \<open>V\<close> over
  100: the expression \<open>globalVolume * V / 100.f\<close> of the code in float arithmetic
  (for finite operands whose product is in range, the quotient itself). The global
  volume after \<open>setGlobalVolume(gv)\<close> is \<open>gv\<close> clamped to 0..100, and 100 for a NaN.
  For the sound player the identifier is loaded when it has both properties and a
  buffer, and every active instance has a properties entry.
\<close>

theorem effective_volume_is_global_times_nominal:
  assumes "map_find ident (tracks mp) = Some track"
    and "map_find ident (soundProperties sp) = Some props"
    and "map_find ident (resourceMap (soundBuffers sp)) = Some buffer"
    and "SoundPlayer_inv sp"
  shows "(\<exists>mp'. MusicPlayer_play_at b pos ident loop g mp = Inr (g, mp')
            \<and> map_option (\<lambda>t. m_volume (music t)) (map_find ident (tracks mp'))
                = Some (divf (mulf (getGlobalVolume mp) (VOLUME track)) (Finite 100)))
       \<and> MusicPlayer_play b ident loop g mp = MusicPlayer_play_at b (getListenerPosition g) ident loop g mp
       \<and> map_option (\<lambda>t. m_volume (music t))
            (map_find ident (tracks (MusicPlayer_setGlobalVolume gv mp)))
           = Some (divf (mulf (getGlobalVolume (MusicPlayer_setGlobalVolume gv mp)) (VOLUME track)) (Finite 100))
       \<and> getGlobalVolume (MusicPlayer_setGlobalVolume gv mp) = (if gv = NaN then Finite 100 else clamp gv (Finite 0) (Finite 100))
       \<and> (\<exists>sp'. SoundPlayer_play_at b pos ident g sp = Inr (g, sp')
            \<and> sounds sp' \<noteq> []
            \<and> effect_id (last (sounds sp')) = ident
            \<and> s_volume (sound (last (sounds sp'))) = divf (mulf (getGlobalVolume sp) (getVolume props)) (Finite 100))
       \<and> SoundPlayer_play b ident g sp = SoundPlayer_play_at b (getListenerPosition g) ident g sp
       \<and> (\<exists>sp'. SoundPlayer_setGlobalVolume b gv g sp = Inr (g, sp')
            \<and> getGlobalVolume sp' = (if gv = NaN then Finite 100 else clamp gv (Finite 0) (Finite 100))
            \<and> map effect_id (sounds sp') = map effect_id (sounds sp)
            \<and> (\<forall>e \<in> set (sounds sp'). effect_id e = ident \<longrightarrow>
                  s_volume (sound e) = divf (mulf (getGlobalVolume sp') (getVolume props)) (Finite 100)))"
proof -
  have m1: "\<exists>mp'. MusicPlayer_play_at b pos ident loop g mp = Inr (g, mp')
            \<and> map_option (\<lambda>t. m_volume (music t)) (map_find ident (tracks mp'))
                = Some (divf (mulf (getGlobalVolume mp) (VOLUME track)) (Finite 100))"
    using assms(1)
    by (simp add: MusicPlayer_play_at_def map_find_modify Music_play_def)
  have m2: "map_option (\<lambda>t. m_volume (music t))
            (map_find ident (tracks (MusicPlayer_setGlobalVolume gv mp)))
           = Some (divf (mulf (getGlobalVolume (MusicPlayer_setGlobalVolume gv mp)) (VOLUME track)) (Finite 100))"
    using assms(1)
    by (simp add: MusicPlayer_setGlobalVolume_def Let_def map_find_for_each
        AudioPlayer_setGlobalVolume_def getGlobalVolume_def)
  have m3: "getGlobalVolume (MusicPlayer_setGlobalVolume gv mp) = (if gv = NaN then Finite 100 else clamp gv (Finite 0) (Finite 100))"
    by (simp add: MusicPlayer_setGlobalVolume_def Let_def AudioPlayer_setGlobalVolume_def
        getGlobalVolume_def clamp_min_max)
  have s1: "\<exists>sp'. SoundPlayer_play_at b pos ident g sp = Inr (g, sp')
            \<and> sounds sp' \<noteq> []
            \<and> effect_id (last (sounds sp')) = ident
            \<and> s_volume (sound (last (sounds sp'))) = divf (mulf (getGlobalVolume sp) (getVolume props)) (Finite 100)"
    by (simp add: SoundPlayer_play_at_loaded [OF assms(2) assms(3)] getGlobalVolume_def getVolume_def)
  have s2: "\<exists>sp'. SoundPlayer_setGlobalVolume b gv g sp = Inr (g, sp')
            \<and> getGlobalVolume sp' = (if gv = NaN then Finite 100 else clamp gv (Finite 0) (Finite 100))
            \<and> map effect_id (sounds sp') = map effect_id (sounds sp)
            \<and> (\<forall>e \<in> set (sounds sp'). effect_id e = ident \<longrightarrow>
                  s_volume (sound e) = divf (mulf (getGlobalVolume sp') (getVolume props)) (Finite 100))"
    using assms(2)
    by (auto simp: SoundPlayer_setGlobalVolume_inv [OF assms(4)] getGlobalVolume_def comp_def
        clamp_min_max)
  show ?thesis
    using m1 m2 m3 s1 s2 by (simp add: MusicPlayer_play_def SoundPlayer_play_def)
qed

theorem effective_volume_witness:
  "(\<exists>sp'. SoundPlayer_play Debug (1::nat) \<lparr>listener = (Finite 0, Finite 0, Finite 300), messages = []\<rparr>
            \<lparr>globalVolume = Finite 50, soundBuffers = \<lparr>resourceMap = [(1, 7::nat)]\<rparr>,
             soundProperties = [(1, AudioProperties_new \<lparr>listener = (Finite 0, Finite 0, Finite 300), messages = []\<rparr> (Finite 40) (Finite 1) (Finite 1) (Finite 1) False)],
             sounds = []\<rparr>
          = Inr (\<lparr>listener = (Finite 0, Finite 0, Finite 300), messages = []\<rparr>, sp')
        \<and> s_volume (sound (last (sounds sp'))) = Finite 20)
   \<and> map_option (\<lambda>t. m_volume (music t))
        (map_find (1::nat) (tracks (MusicPlayer_setGlobalVolume (Finite 50)
           \<lparr>globalVolume = Finite 100, tracks = [(1, MusicTrack_new (Finite 40))]\<rparr>))) = Some (Finite 20)"
proof -
  let ?g = "\<lparr>listener = (Finite 0, Finite 0, Finite 300), messages = []\<rparr>"
  let ?P = "AudioProperties_new ?g (Finite 40) (Finite 1) (Finite 1) (Finite 1) False"
  let ?sp = "\<lparr>globalVolume = Finite 50, soundBuffers = \<lparr>resourceMap = [(1::nat, 7::nat)]\<rparr>,
             soundProperties = [(1, ?P)], sounds = []\<rparr>"
  let ?mp = "\<lparr>globalVolume = Finite 100, tracks = [(1::nat, MusicTrack_new (Finite 40))]\<rparr>"
  have h1: "map_find 1 (tracks ?mp) = Some (MusicTrack_new (Finite 40))"
    by (simp add: map_find_def)
  have h2: "map_find 1 (soundProperties ?sp) = Some ?P"
    by (simp add: map_find_def)
  have h3: "map_find 1 (resourceMap (soundBuffers ?sp)) = Some 7"
    by (simp add: map_find_def)
  have h4: "SoundPlayer_inv ?sp"
    by (simp add: SoundPlayer_inv_def)
  note T = effective_volume_is_global_times_nominal
    [OF h1 h2 h3 h4, of Debug "getListenerPosition ?g" True ?g "Finite 50"]
  have vP: "getVolume ?P = Finite 40"
    by (simp add: AudioProperties_new_def setVolume_def setAttenuation_def setMinDistance2D_def
        getVolume_def fmaxf_def fminf_def Let_def)
  from T have A: "\<exists>sp'. SoundPlayer_play_at Debug (getListenerPosition ?g) 1 ?g ?sp = Inr (?g, sp')
      \<and> s_volume (sound (last (sounds sp'))) = divf (mulf (getGlobalVolume ?sp) (getVolume ?P)) (Finite 100)"
    by blast
  from T have B: "SoundPlayer_play Debug 1 ?g ?sp = SoundPlayer_play_at Debug (getListenerPosition ?g) 1 ?g ?sp"
    by blast
  from T have C: "map_option (\<lambda>t. m_volume (music t))
        (map_find 1 (tracks (MusicPlayer_setGlobalVolume (Finite 50) ?mp)))
      = Some (divf (mulf (getGlobalVolume (MusicPlayer_setGlobalVolume (Finite 50) ?mp)) (VOLUME (MusicTrack_new (Finite 40)))) (Finite 100))"
    by blast
  from T have D: "getGlobalVolume (MusicPlayer_setGlobalVolume (Finite 50) ?mp) = (if Finite 50 = NaN then Finite 100 else clamp (Finite 50) (Finite 0) (Finite 100))"
    by blast
  have A': "\<exists>sp'. SoundPlayer_play Debug 1 ?g ?sp = Inr (?g, sp')
      \<and> s_volume (sound (last (sounds sp'))) = Finite 20"
    using A B vP by (simp add: getGlobalVolume_def overflowf_def FLT_MAX_def)
  have C': "map_option (\<lambda>t. m_volume (music t))
        (map_find 1 (tracks (MusicPlayer_setGlobalVolume (Finite 50) ?mp))) = Some (Finite 20)"
    using C D by (simp add: clamp_def MusicTrack_new_def overflowf_def FLT_MAX_def)
  show ?thesis using A' C' by blast
qed

text \<open>
  C7. With properties and a buffer for the identifier, \<open>unload\<close> erases the
  properties entry, removes every active instance of the identifier whatever its
  status (none is left), and erases the buffer; the other entries and instances
  stay.
\<close>

theorem SoundPlayer_unload_removes_everything:
  assumes "map_find ident (soundProperties sp) = Some props"
    and "map_find ident (resourceMap (soundBuffers sp)) = Some buffer"
  shows "\<exists>sp'. SoundPlayer_unload b ident g sp = Inr (g, sp')
           \<and> map_find ident (soundProperties sp') = None
           \<and> length (filter (\<lambda>e. effect_id e = ident) (sounds sp')) = 0
           \<and> map_find ident (resourceMap (soundBuffers sp')) = None
           \<and> soundProperties sp' = map_erase ident (soundProperties sp)
           \<and> sounds sp' = filter (\<lambda>e. effect_id e \<noteq> ident) (sounds sp)
           \<and> resourceMap (soundBuffers sp') = map_erase ident (resourceMap (soundBuffers sp))
           \<and> globalVolume sp' = globalVolume sp"
  using assms
  by (simp add: SoundPlayer_unload_def ResourceHolder_unload_def Let_def map_find_erase)

theorem SoundPlayer_unload_witness:
  "\<exists>sp'. SoundPlayer_unload Release (1::nat) \<lparr>listener = (Finite 0, Finite 0, Finite 300), messages = []\<rparr>
            \<lparr>globalVolume = Finite 100, soundBuffers = \<lparr>resourceMap = [(1, 7::nat), (2, 8)]\<rparr>,
             soundProperties =
               [(1, AudioProperties_default \<lparr>listener = (Finite 0, Finite 0, Finite 300), messages = []\<rparr>),
                (2, AudioProperties_default \<lparr>listener = (Finite 0, Finite 0, Finite 300), messages = []\<rparr>)],
             sounds = [\<lparr>sound = Sound_play (Sound_new 7), effect_id = 1\<rparr>,
                       \<lparr>sound = Sound_play (Sound_new 8), effect_id = 2\<rparr>,
                       \<lparr>sound = Sound_play (Sound_new 7), effect_id = 1\<rparr>]\<rparr>
          = Inr (\<lparr>listener = (Finite 0, Finite 0, Finite 300), messages = []\<rparr>, sp')
        \<and> soundProperties sp' = [(2, AudioProperties_default \<lparr>listener = (Finite 0, Finite 0, Finite 300), messages = []\<rparr>)]
        \<and> sounds sp' = [\<lparr>sound = Sound_play (Sound_new 8), effect_id = 2\<rparr>]
        \<and> resourceMap (soundBuffers sp') = [(2, 8)]"
proof -
  let ?g = "\<lparr>listener = (Finite 0, Finite 0, Finite 300), messages = []\<rparr>"
  let ?sp = "\<lparr>globalVolume = Finite 100, soundBuffers = \<lparr>resourceMap = [(1::nat, 7::nat), (2, 8)]\<rparr>,
             soundProperties = [(1, AudioProperties_default ?g), (2, AudioProperties_default ?g)],
             sounds = [\<lparr>sound = Sound_play (Sound_new 7), effect_id = 1\<rparr>,
                       \<lparr>sound = Sound_play (Sound_new 8), effect_id = 2\<rparr>,
                       \<lparr>sound = Sound_play (Sound_new 7), effect_id = 1\<rparr>]\<rparr>"
  have h1: "map_find 1 (soundProperties ?sp) = Some (AudioProperties_default ?g)"
    by (simp add: map_find_def)
  have h2: "map_find 1 (resourceMap (soundBuffers ?sp)) = Some 7"
    by (simp add: map_find_def)
  from SoundPlayer_unload_removes_everything [OF h1 h2, of Release ?g]
  obtain sp' where r: "SoundPlayer_unload Release 1 ?g ?sp = Inr (?g, sp')"
    and p: "soundProperties sp' = map_erase 1 (soundProperties ?sp)"
    and e: "sounds sp' = filter (\<lambda>e. effect_id e \<noteq> 1) (sounds ?sp)"
    and bf: "resourceMap (soundBuffers sp') = map_erase 1 (resourceMap (soundBuffers ?sp))"
    by blast
  have "soundProperties sp' = [(2, AudioProperties_default ?g)]"
    using p by (simp add: map_erase_def)
  moreover have "sounds sp' = [\<lparr>sound = Sound_play (Sound_new 8), effect_id = 2\<rparr>]"
    using e by simp
  moreover have "resourceMap (soundBuffers sp') = [(2, 8)]"
    using bf by (simp add: map_erase_def)
  ultimately show ?thesis using r by blast
qed

lemma SoundPlayer_unload_debug_without_buffer:
  assumes "map_find ident (soundProperties sp) = Some props"
    and "map_find ident (resourceMap (soundBuffers sp)) = None"
  shows "SoundPlayer_unload Debug ident g sp
           = Inr (cacheMessage ''ae::ResourceHolder::unload - Unable to find resource'' g,
                  sp\<lparr>soundProperties := map_erase ident (soundProperties sp),
                     sounds := filter (\<lambda>e. effect_id e \<noteq> ident) (sounds sp)\<rparr>)
       \<and> SoundPlayer_unload Release ident g sp = Inl UndefinedBehaviour"
  using assms
  by (simp add: SoundPlayer_unload_def ResourceHolder_unload_def Let_def)

text \<open>
  C10. With the identifier already loaded with properties \<open>P\<close> (and a buffer), a
  second \<open>load\<close> under it, with other properties or with the default ones, leaves the
  properties map as it was, so the entry is still \<open>P\<close>; a \<open>play\<close> afterwards gives
  the new instance the volume, attenuation, pitch, minimal distance and relative
  flag of \<open>P\<close>.
\<close>

theorem SoundPlayer_reload_keeps_properties:
  assumes "map_find ident (soundProperties sp) = Some P"
    and "map_find ident (resourceMap (soundBuffers sp)) = Some buffer"
  shows "soundProperties (snd (SoundPlayer_load_with b loadFromFile path2 P2 ident g sp))
           = soundProperties sp
       \<and> map_find ident (soundProperties (snd (SoundPlayer_load_with b loadFromFile path2 P2 ident g sp)))
           = Some P
       \<and> soundProperties (snd (SoundPlayer_load b loadFromFile path2 ident g sp)) = soundProperties sp
       \<and> (\<exists>sp'. SoundPlayer_play_at b pos ident g'
                   (snd (SoundPlayer_load_with b loadFromFile path2 P2 ident g sp)) = Inr (g', sp')
             \<and> s_volume (sound (last (sounds sp'))) = divf (mulf (getGlobalVolume sp) (getVolume P)) (Finite 100)
             \<and> s_attenuation (sound (last (sounds sp'))) = getAttenuation P
             \<and> s_pitch (sound (last (sounds sp'))) = getPitch P
             \<and> s_minDistance (sound (last (sounds sp'))) = getMinDistance3D P
             \<and> s_relativeToListener (sound (last (sounds sp'))) = isRelativeToListener P)"
proof -
  let ?sp1 = "snd (SoundPlayer_load_with b loadFromFile path2 P2 ident g sp)"
  have p: "soundProperties ?sp1 = soundProperties sp"
    using assms(1)
    by (simp add: SoundPlayer_load_with_def map_insert_present split: prod.splits)
  have bf: "map_find ident (resourceMap (soundBuffers ?sp1)) = Some buffer"
    using assms(2)
    by (auto simp: SoundPlayer_load_with_def ResourceHolder_load_def map_insert_present
        split: prod.splits option.splits)
  have gv: "globalVolume ?sp1 = globalVolume sp"
    by (simp add: SoundPlayer_load_with_def split: prod.splits)
  have p': "soundProperties (snd (SoundPlayer_load b loadFromFile path2 ident g sp)) = soundProperties sp"
    using assms(1)
    by (simp add: SoundPlayer_load_def map_insert_present split: prod.splits)
  have pf: "map_find ident (soundProperties ?sp1) = Some P"
    using p assms(1) by simp
  show ?thesis
    using p p' pf
    by (simp add: SoundPlayer_play_at_loaded [OF pf bf] gv getGlobalVolume_def getVolume_def
        getAttenuation_def getPitch_def getMinDistance3D_def isRelativeToListener_def)
qed

theorem SoundPlayer_reload_witness:
  "map_find (1::nat)
     (soundProperties (snd (SoundPlayer_load_with Debug (\<lambda>f. if f = ''a.wav'' then Some (7::nat) else None)
        ''a.wav'' (AudioProperties_new \<lparr>listener = (Finite 0, Finite 0, Finite 300), messages = []\<rparr> (Finite 90) (Finite 1) (Finite 1) (Finite 1) False) 1
        \<lparr>listener = (Finite 0, Finite 0, Finite 300), messages = []\<rparr>
        \<lparr>globalVolume = Finite 50, soundBuffers = \<lparr>resourceMap = [(1, 7)]\<rparr>,
         soundProperties = [(1, AudioProperties_new \<lparr>listener = (Finite 0, Finite 0, Finite 300), messages = []\<rparr> (Finite 40) (Finite 1) (Finite 1) (Finite 1) False)],
         sounds = []\<rparr>)))
    = Some (AudioProperties_new \<lparr>listener = (Finite 0, Finite 0, Finite 300), messages = []\<rparr> (Finite 40) (Finite 1) (Finite 1) (Finite 1) False)"
proof -
  let ?g = "\<lparr>listener = (Finite 0, Finite 0, Finite 300), messages = []\<rparr>"
  let ?P = "AudioProperties_new ?g (Finite 40) (Finite 1) (Finite 1) (Finite 1) False"
  let ?sp = "\<lparr>globalVolume = Finite 50, soundBuffers = \<lparr>resourceMap = [(1::nat, 7::nat)]\<rparr>,
             soundProperties = [(1, ?P)], sounds = []\<rparr>"
  have h1: "map_find 1 (soundProperties ?sp) = Some ?P"
    by (simp add: map_find_def)
  have h2: "map_find 1 (resourceMap (soundBuffers ?sp)) = Some 7"
    by (simp add: map_find_def)
  from SoundPlayer_reload_keeps_properties [OF h1 h2]
  show ?thesis by blast
qed

text \<open>
  Every operation of the sound player keeps the invariant that each active effect has
  a properties entry, and a new player has it.
\<close>

lemma SoundPlayer_inv_new: "SoundPlayer_inv (snd (SoundPlayer_new g))"
  by (simp add: SoundPlayer_inv_def SoundPlayer_new_def)

lemma SoundPlayer_inv_load:
  "SoundPlayer_inv sp \<Longrightarrow> SoundPlayer_inv (snd (SoundPlayer_load b loadFromFile filepath ident g sp))"
  by (auto simp: SoundPlayer_inv_def SoundPlayer_load_def map_find_insert list_all_iff
      split: prod.splits)

lemma SoundPlayer_inv_load_with:
  "SoundPlayer_inv sp \<Longrightarrow>
   SoundPlayer_inv (snd (SoundPlayer_load_with b loadFromFile filepath properties ident g sp))"
  by (auto simp: SoundPlayer_inv_def SoundPlayer_load_with_def map_find_insert list_all_iff
      split: prod.splits)

lemma SoundPlayer_inv_play_at:
  "SoundPlayer_inv sp \<Longrightarrow> SoundPlayer_play_at b pos ident g sp = Inr (g', sp') \<Longrightarrow> SoundPlayer_inv sp'"
  by (auto simp: SoundPlayer_inv_def SoundPlayer_play_at_def SoundPlayer_removeStoppedSounds_def
      lookup_miss_def cacheMessage_def SoundEffect_new_def Let_def list_all_iff
      split: option.splits build.splits sum.splits prod.splits)

lemma SoundPlayer_inv_pause: "SoundPlayer_inv sp \<Longrightarrow> SoundPlayer_inv (SoundPlayer_pause flag sp)"
  by (auto simp: SoundPlayer_inv_def SoundPlayer_pause_def list_all_iff)

lemma SoundPlayer_inv_stop: "SoundPlayer_inv sp \<Longrightarrow> SoundPlayer_inv (SoundPlayer_stop sp)"
  by (auto simp: SoundPlayer_inv_def SoundPlayer_stop_def SoundPlayer_removeStoppedSounds_def
      list_all_iff)

lemma SoundPlayer_inv_setGlobalVolume:
  "SoundPlayer_inv sp \<Longrightarrow> SoundPlayer_setGlobalVolume b gv g sp = Inr (g', sp') \<Longrightarrow>
   SoundPlayer_inv sp'"
  by (auto simp: SoundPlayer_setGlobalVolume_inv SoundPlayer_inv_def list_all_iff)

lemma SoundPlayer_inv_unload:
  "SoundPlayer_inv sp \<Longrightarrow> SoundPlayer_unload b ident g sp = Inr (g', sp') \<Longrightarrow> SoundPlayer_inv sp'"
  by (auto simp: SoundPlayer_inv_def SoundPlayer_unload_def ResourceHolder_unload_def
      lookup_miss_def cacheMessage_def map_find_erase Let_def list_all_iff
      split: option.splits build.splits)

subsection \<open>Math::pascalTriangle\<close>

lemma c_div_nonneg: "0 \<le> a \<Longrightarrow> 0 < b \<Longrightarrow> c_div a b = a div b"
  by (simp add: c_div_def)

lemma binomial_step_nat: "0 < i \<Longrightarrow> (N choose (i - 1)) * (N - (i - 1)) = (N choose i) * i"
  by (metis binomial_absorb_comp times_binomial_minus1_eq mult.commute)

lemma binomial_step_int:
  assumes "0 \<le> n" "1 \<le> i" "i \<le> n"
  shows "int (nat n choose nat (i - 1)) * (n - i + 1) = int (nat n choose nat i) * i"
proof -
  have a: "nat (i - 1) = nat i - 1" using assms by simp
  have b: "n - i + 1 = int (nat n - (nat i - 1))" using assms by auto
  have c: "i = int (nat i)" using assms by simp
  have "(nat n choose (nat i - 1)) * (nat n - (nat i - 1)) = (nat n choose nat i) * nat i"
    using assms by (intro binomial_step_nat) simp
  then have "int ((nat n choose (nat i - 1)) * (nat n - (nat i - 1))) = int ((nat n choose nat i) * nat i)"
    by simp
  then show ?thesis
    using a b c by (metis of_nat_mult)
qed

lemma products_fit_iff:
  "0 \<le> n \<Longrightarrow> products_fit n \<longleftrightarrow>
     (\<forall>i. 1 \<le> i \<and> i \<le> n div 2 \<longrightarrow> int_fits (int (nat n choose nat (i - 1)) * (n - i + 1)))"
  by (auto simp: products_fit_def list_all_iff c_div_nonneg)

lemma pascal_loop1_correct:
  assumes "0 \<le> n" "1 \<le> i" "i \<le> n div 2 + 1" "length row = nat n + 1"
    and "\<forall>j < nat i. row ! j = int (nat n choose j)"
    and "\<forall>k. i \<le> k \<and> k \<le> n div 2 \<longrightarrow> int_fits (int (nat n choose nat (k - 1)) * (n - k + 1))"
  shows "\<exists>row'. pascal_loop1 n i row = Inr row' \<and> length row' = nat n + 1
           \<and> (\<forall>j < nat (n div 2 + 1). row' ! j = int (nat n choose j))"
  using assms
proof (induction n i row rule: pascal_loop1.induct)
  case (1 n i row)
  show ?case
  proof (cases "i < n div 2 + 1")
    case False
    with "1.prems" have "i = n div 2 + 1" by simp
    with False "1.prems" show ?thesis
      by (subst pascal_loop1.simps) (simp add: c_div_nonneg)
  next
    case True
    let ?product = "row ! nat (i - 1) * (n - i + 1)"
    have i_le: "i \<le> n" using True "1.prems"(1) by linarith
    have prev: "row ! nat (i - 1) = int (nat n choose nat (i - 1))"
      using "1.prems"(2,5) by simp
    have fits: "int_fits ?product"
      using "1.prems"(6) True "1.prems"(2) prev by simp
    have prod: "?product = int (nat n choose nat i) * i"
      using prev binomial_step_int [OF "1.prems"(1) "1.prems"(2) i_le] by simp
    have quot: "c_div ?product i = int (nat n choose nat i)"
      using "1.prems"(2) by (simp add: prod c_div_nonneg)
    let ?row = "row[nat i := c_div ?product i]"
    have inb: "\<not> (i - 1 < 0 \<or> int (length row) \<le> i)"
      using "1.prems"(1,2,4) i_le by simp
    have cond: "i < c_div n 2 + 1"
      using True "1.prems"(1) by (simp add: c_div_nonneg)
    have step: "pascal_loop1 n i row = pascal_loop1 n (i + 1) ?row"
      using cond inb fits by (subst pascal_loop1.simps) (simp add: Let_def)
    have inv: "\<forall>j < nat (i + 1). ?row ! j = int (nat n choose j)"
    proof (intro allI impI)
      fix j assume "j < nat (i + 1)"
      then have "j < nat i \<or> j = nat i" using "1.prems"(2) by linarith
      then show "?row ! j = int (nat n choose j)"
        using "1.prems"(1,2,4,5) i_le quot by (auto simp: nth_list_update)
    qed
    have "\<exists>row'. pascal_loop1 n (i + 1) ?row = Inr row' \<and> length row' = nat n + 1
           \<and> (\<forall>j < nat (n div 2 + 1). row' ! j = int (nat n choose j))"
      using cond inb fits True "1.prems" inv
      by (intro "1.IH") (auto simp: Let_def)
    then show ?thesis using step by simp
  qed
qed

lemma pascal_loop2_correct:
  assumes "0 \<le> n" "n div 2 + 1 \<le> i" "i \<le> n + 1" "length row = nat n + 1"
    and "\<forall>j < nat i. row ! j = int (nat n choose j)"
  shows "\<exists>row'. pascal_loop2 n i row = Inr row' \<and> length row' = nat n + 1
           \<and> (\<forall>j < nat (n + 1). row' ! j = int (nat n choose j))"
  using assms
proof (induction n i row rule: pascal_loop2.induct)
  case (1 n i row)
  show ?case
  proof (cases "i \<le> n")
    case False
    with "1.prems" have "i = n + 1" by simp
    with False "1.prems" show ?thesis
      by (subst pascal_loop2.simps) simp
  next
    case True
    have i_pos: "0 < i" using "1.prems"(1,2) by linarith
    have mirror_lt: "n - i < i" using "1.prems"(1,2) by linarith
    have inb: "\<not> (i < 0 \<or> int (length row) \<le> i \<or> n - i < 0 \<or> int (length row) \<le> n - i)"
      using True i_pos "1.prems"(4) by simp
    have mirror: "row ! nat (n - i) = int (nat n choose nat i)"
    proof -
      have a: "row ! nat (n - i) = int (nat n choose nat (n - i))"
        using "1.prems"(5) mirror_lt True by simp
      have b: "nat (n - i) = nat n - nat i" using True i_pos by simp
      have c: "nat n choose nat i = nat n choose (nat n - nat i)"
        using True i_pos by (intro binomial_symmetric) simp
      show ?thesis using a b c by simp
    qed
    let ?row = "row[nat i := row ! nat (n - i)]"
    have step: "pascal_loop2 n i row = pascal_loop2 n (i + 1) ?row"
      using True inb by (subst pascal_loop2.simps) simp
    have inv: "\<forall>j < nat (i + 1). ?row ! j = int (nat n choose j)"
    proof (intro allI impI)
      fix j assume "j < nat (i + 1)"
      then have "j < nat i \<or> j = nat i" using i_pos by linarith
      then show "?row ! j = int (nat n choose j)"
        using "1.prems"(4,5) True i_pos mirror by (auto simp: nth_list_update)
    qed
    have "\<exists>row'. pascal_loop2 n (i + 1) ?row = Inr row' \<and> length row' = nat n + 1
           \<and> (\<forall>j < nat (n + 1). row' ! j = int (nat n choose j))"
      using True inb "1.prems" inv
      by (intro "1.IH") auto
    then show ?thesis using step by simp
  qed
qed

lemma products_fit_size:
  assumes "0 \<le> n" "products_fit n"
  shows "int_fits (n + 1)"
proof (cases "n \<le> 3")
  case True
  with assms(1) show ?thesis by (simp add: int_fits_def INT_MIN_def INT_MAX_def)
next
  case False
  then have n4: "4 \<le> n" by simp
  then have "1 \<le> (2::int) \<and> 2 \<le> n div 2" by linarith
  then have "int_fits (int (nat n choose nat (2 - 1)) * (n - 2 + 1))"
    using assms products_fit_iff by blast
  then have "n * (n - 1) \<le> INT_MAX"
    using assms(1) by (simp add: int_fits_def)
  moreover have "n + 1 \<le> n * (n - 1)"
  proof -
    have "n * 2 \<le> n * (n - 1)" using n4 by (intro mult_left_mono) simp_all
    then show ?thesis using n4 by linarith
  qed
  ultimately show ?thesis
    using assms(1) by (simp add: int_fits_def INT_MIN_def)
qed

lemma binomial_row_fits:
  assumes "n \<le> 30"
  shows "list_all int_fits (binomial_row n)"
proof -
  have "int (n choose i) \<le> INT_MAX" for i
  proof -
    have "n choose i \<le> 2 ^ n" by (rule binomial_le_pow2)
    also have "(2::nat) ^ n \<le> 2 ^ 30" using assms by (intro power_increasing) simp_all
    finally have "int (n choose i) \<le> int (2 ^ 30)" by (simp only: of_nat_le_iff)
    then show ?thesis by (simp add: INT_MAX_def)
  qed
  then show ?thesis
    by (simp add: binomial_row_def list_all_iff int_fits_def INT_MIN_def del: upt_Suc)
qed

text \<open>
  C9 fails on the code. Every binomial coefficient of row 30 fits in \<open>int\<close>, so the
  claim promises row 30; but at \<open>i = 15\<close> the first loop multiplies
  \<open>row[14] = 145422675\<close> by 16 before it divides by 15, and the product 2326762800
  is beyond the greatest \<open>int\<close>: the call overflows and does not return row 30.
\<close>

theorem pascalTriangle_overflows_at_30:
  "list_all int_fits (binomial_row 30)
   \<and> pascalTriangle 30 = Inl SignedOverflow
   \<and> pascalTriangle 30 \<noteq> Inr (binomial_row 30)"
proof -
  have a: "list_all int_fits (binomial_row 30)" by (rule binomial_row_fits) simp
  have b: "pascalTriangle 30 = Inl SignedOverflow" by code_simp
  show ?thesis using a b by simp
qed

text \<open>
  What the code does compute. For every \<open>n \<ge> 0\<close> such that every product
  \<open>C(n, i - 1) * (n - i + 1)\<close> with \<open>1 \<le> i \<le> n / 2\<close> fits in \<open>int\<close>, the call
  returns the vector of length \<open>n + 1\<close> whose element at every index \<open>i\<close> is
  \<open>C(n, i)\<close>; the division of the recurrence is exact there and gives \<open>C(n, i)\<close>.
\<close>

lemma pascalTriangle_row_when_products_fit:
  assumes "0 \<le> n" and "products_fit n"
  shows "pascalTriangle n = Inr (binomial_row (nat n))
       \<and> length (binomial_row (nat n)) = nat n + 1
       \<and> (\<forall>i \<le> nat n. binomial_row (nat n) ! i = int (nat n choose i))
       \<and> (\<forall>i. 1 \<le> i \<and> i \<le> n div 2 \<longrightarrow>
             (int (nat n choose nat (i - 1)) * (n - i + 1)) mod i = 0
             \<and> c_div (int (nat n choose nat (i - 1)) * (n - i + 1)) i = int (nat n choose nat i))"
proof -
  let ?row0 = "(replicate (nat (n + 1)) (0::int))[0 := 1]"
  have size: "int_fits (n + 1)" by (rule products_fit_size [OF assms])
  have len0: "length ?row0 = nat n + 1" using assms(1) by (simp add: nat_add_distrib)
  have inv0: "\<forall>j < nat 1. ?row0 ! j = int (nat n choose j)"
    using assms(1) by (simp add: nat_add_distrib)
  have fit: "\<forall>k. 1 \<le> k \<and> k \<le> n div 2 \<longrightarrow> int_fits (int (nat n choose nat (k - 1)) * (n - k + 1))"
    using assms products_fit_iff by blast
  have "1 \<le> n div 2 + 1" using assms(1) by (simp add: pos_imp_zdiv_nonneg_iff)
  from pascal_loop1_correct [OF assms(1) _ this len0 inv0 fit]
  obtain row1 where r1: "pascal_loop1 n 1 ?row0 = Inr row1" and len1: "length row1 = nat n + 1"
    and inv1: "\<forall>j < nat (n div 2 + 1). row1 ! j = int (nat n choose j)"
    by auto
  have "n div 2 + 1 \<le> n + 1" using assms(1) by linarith
  from pascal_loop2_correct [OF assms(1) _ this len1 inv1]
  obtain row2 where r2: "pascal_loop2 n (n div 2 + 1) row1 = Inr row2"
    and len2: "length row2 = nat n + 1"
    and inv2: "\<forall>j < nat (n + 1). row2 ! j = int (nat n choose j)"
    by auto
  have "row2 = binomial_row (nat n)"
  proof (rule nth_equalityI)
    show "length row2 = length (binomial_row (nat n))"
      using len2 by (simp add: binomial_row_def)
  next
    fix j assume "j < length row2"
    then have j: "j < nat n + 1" using len2 by simp
    then have "row2 ! j = int (nat n choose j)"
      using inv2 assms(1) by (simp add: nat_add_distrib)
    moreover have "binomial_row (nat n) ! j = int (nat n choose j)"
      using j unfolding binomial_row_def by (simp del: upt_Suc add: nth_map_upt)
    ultimately show "row2 ! j = binomial_row (nat n) ! j" by simp
  qed
  then have main: "pascalTriangle n = Inr (binomial_row (nat n))"
    using size assms(1) r1 r2
    by (simp add: pascalTriangle_def c_div_nonneg Let_def nat_add_distrib)
  have nth: "\<forall>i \<le> nat n. binomial_row (nat n) ! i = int (nat n choose i)"
    unfolding binomial_row_def by (simp del: upt_Suc add: nth_map_upt)
  have exact: "\<forall>i. 1 \<le> i \<and> i \<le> n div 2 \<longrightarrow>
             (int (nat n choose nat (i - 1)) * (n - i + 1)) mod i = 0
             \<and> c_div (int (nat n choose nat (i - 1)) * (n - i + 1)) i = int (nat n choose nat i)"
  proof (intro allI impI)
    fix i assume i: "1 \<le> i \<and> i \<le> n div 2"
    then have "i \<le> n" using assms(1) by linarith
    with i have "int (nat n choose nat (i - 1)) * (n - i + 1) = int (nat n choose nat i) * i"
      using binomial_step_int [OF assms(1)] by simp
    then show "(int (nat n choose nat (i - 1)) * (n - i + 1)) mod i = 0
             \<and> c_div (int (nat n choose nat (i - 1)) * (n - i + 1)) i = int (nat n choose nat i)"
      using i by (simp add: c_div_nonneg)
  qed
  show ?thesis using main nth exact by (simp add: binomial_row_def)
qed

lemma pascalTriangle_6:
  "pascalTriangle 6 = Inr (binomial_row 6)
   \<and> binomial_row 6 = [1, 6, 15, 20, 15, 6, 1]"
proof -
  have a: "(0::int) \<le> 6" by simp
  have b: "products_fit 6" by code_simp
  have c: "binomial_row 6 = [1, 6, 15, 20, 15, 6, 1]" by code_simp
  from pascalTriangle_row_when_products_fit [OF a b]
  have "pascalTriangle 6 = Inr (binomial_row (nat 6))" by blast
  then show ?thesis using c by simp
qed

text \<open>The same product overflows for the rows 31, 32 and 33.\<close>

lemma pascalTriangle_31_32_33:
  "pascalTriangle 31 = Inl SignedOverflow
   \<and> pascalTriangle 32 = Inl SignedOverflow
   \<and> pascalTriangle 33 = Inl SignedOverflow"
proof -
  have a: "pascalTriangle 31 = Inl SignedOverflow" by code_simp
  have b: "pascalTriangle 32 = Inl SignedOverflow" by code_simp
  have c: "pascalTriangle 33 = Inl SignedOverflow" by code_simp
  show ?thesis using a b c by simp
qed

text \<open>Row 29 is still computed: none of its products overflows.\<close>

lemma pascalTriangle_29:
  "pascalTriangle 29 =
     Inr [1, 29, 406, 3654, 23751, 118755, 475020, 1560780, 4292145, 10015005,
          20030010, 34597290, 51895935, 67863915, 77558760, 77558760, 67863915,
          51895935, 34597290, 20030010, 10015005, 4292145, 1560780, 475020,
          118755, 23751, 3654, 406, 29, 1]"
  by code_simp

end
